theory Spec2Isabelle
  imports Main
begin

section \<open>JavaScript values\<close>

text \<open>
  The query language is untyped on the JavaScript side: a search condition, a filter value
  and a request are all plain values. One datatype carries them. An object is the list of
  its own properties in enumeration order (keys are distinct); numbers are the safe
  integers (below \<open>2^53\<close> in magnitude), which a template literal prints in full;
  \<open>Date\<close> values are not modelled.
\<close>

datatype json =
    JUndefined
  | JNull
  | JBool bool
  | JNum int
  | JStr string
  | JArr "json list"
  | JObj "(string \<times> json) list"

type_synonym SCondition = json
type_synonym ObjectLiteral = json

definition digit_char :: "nat \<Rightarrow> char" where
  "digit_char n = ''0123456789'' ! n"

fun string_of_nat :: "nat \<Rightarrow> string" where
  "string_of_nat n =
     (if n < 10 then [digit_char n]
      else string_of_nat (n div 10) @ [digit_char (n mod 10)])"

declare string_of_nat.simps [simp del]

text \<open>The own enumerable properties of a value, as \<open>Object.keys\<close> walks them.\<close>

fun props :: "json \<Rightarrow> (string \<times> json) list" where
  "props (JObj kvs) = kvs"
| "props (JArr xs) = zip (map string_of_nat [0..<length xs]) xs"
| "props _ = []"

text \<open>Property read \<open>o[k]\<close>: a missing property reads as \<open>undefined\<close>.\<close>

definition obj_get :: "json \<Rightarrow> string \<Rightarrow> json" where
  "obj_get v k = (case map_of (props v) k of Some x \<Rightarrow> x | None \<Rightarrow> JUndefined)"

text \<open>
  A plain object (an object literal, a merged options object) inherits the members of
  \<open>Object.prototype\<close>. Reading one of these names on an object that has no such property
  of its own gives the inherited member: a function, or for \<open>__proto__\<close> the prototype
  itself. Either is truthy and has none of the properties the code goes on to read.
  \<open>inheritedText\<close> is what a template literal prints for the member.
\<close>

definition objectPrototype :: "string list" where
  "objectPrototype =
     [''constructor'', ''__defineGetter__'', ''__defineSetter__'', ''hasOwnProperty'',
      ''__lookupGetter__'', ''__lookupSetter__'', ''isPrototypeOf'', ''propertyIsEnumerable'',
      ''toString'', ''valueOf'', ''__proto__'', ''toLocaleString'']"

definition inheritedText :: "string \<Rightarrow> string" where
  "inheritedText name =
     (if name = ''__proto__'' then ''[object Object]''
      else ''function '' @ (if name = ''constructor'' then ''Object'' else name) @ ''() { [native code] }'')"

text \<open>JavaScript truthiness, as \<open>a ? b : c\<close>, \<open>a || b\<close> and \<open>!a\<close> test it.\<close>

fun truthy :: "json \<Rightarrow> bool" where
  "truthy JUndefined = False"
| "truthy JNull = False"
| "truthy (JBool b) = b"
| "truthy (JNum n) = (n \<noteq> 0)"
| "truthy (JStr s) = (s \<noteq> [])"
| "truthy (JArr _) = True"
| "truthy (JObj _) = True"

text \<open>
  The predicates of the utility package (\<open>@n4it/crud-util\<close>) are not among the sources.
  They are modelled by the JavaScript test each name denotes: \<open>isObject\<close> is
  \<open>typeof val === 'object'\<close> on a non-null value (so an array is an object),
  \<open>isArrayFull\<close> is a non-empty array, \<open>objKeys\<close> is \<open>Object.keys\<close>.
\<close>

fun isUndefined :: "json \<Rightarrow> bool" where
  "isUndefined JUndefined = True"
| "isUndefined _ = False"

fun isNull :: "json \<Rightarrow> bool" where
  "isNull JNull = True"
| "isNull _ = False"

definition isNil :: "json \<Rightarrow> bool" where
  "isNil v = (isUndefined v \<or> isNull v)"

fun isObject :: "json \<Rightarrow> bool" where
  "isObject (JArr _) = True"
| "isObject (JObj _) = True"
| "isObject _ = False"

fun isArray :: "json \<Rightarrow> bool" where
  "isArray (JArr _) = True"
| "isArray _ = False"

fun isArrayFull :: "json \<Rightarrow> bool" where
  "isArrayFull (JArr xs) = (xs \<noteq> [])"
| "isArrayFull _ = False"

fun isStringFull :: "json \<Rightarrow> bool" where
  "isStringFull (JStr s) = (s \<noteq> [])"
| "isStringFull _ = False"

definition objKeys :: "json \<Rightarrow> string list" where
  "objKeys v = map fst (props v)"

text \<open>\<open>hasLength\<close> on an array held as a list.\<close>

definition hasLength :: "'a list \<Rightarrow> bool" where
  "hasLength xs = (0 < length xs)"

text \<open>\<open>[...new Set(xs)]\<close>: the first occurrence of each element, in order.\<close>

definition uniq :: "'a list \<Rightarrow> 'a list" where
  "uniq xs = rev (remdups (rev xs))"

text \<open>An optional array that is present and non-empty (\<open>xs && xs.length\<close>).\<close>

fun full :: "'a list option \<Rightarrow> bool" where
  "full (Some (x # xs)) = True"
| "full _ = False"

fun elems :: "'a list option \<Rightarrow> 'a list" where
  "elems (Some xs) = xs"
| "elems None = []"

section \<open>Data model\<close>

record QueryFilter =
  field :: string
  operator :: string
  qvalue :: json

record QuerySort =
  sort_field :: string
  order :: string

record QueryJoin =
  join_field :: string
  join_select :: "string list option"
  on :: "QueryFilter list option"

record ParsedRequestParams =
  pfields :: "string list"
  paramsFilter :: "QueryFilter list"
  authPersist :: ObjectLiteral
  classTransformOptions :: json
  psearch :: SCondition
  pfilter :: "QueryFilter list"
  por :: "QueryFilter list"
  pjoin :: "QueryJoin list"
  psort :: "QuerySort list"
  plimit :: "nat option"
  poffset :: "nat option"
  ppage :: "nat option"
  pcache :: "nat option"
  pincludeDeleted :: "nat option"
  pextra :: json

text \<open>
  The column lists shared by the route's query options and by each join option
  (\<open>getAllowedColumns\<close> is called with either).
\<close>

record ColumnOptions =
  allow :: "string list option"
  exclude :: "string list option"
  persist :: "string list option"

record JoinOption = ColumnOptions +
  jalias :: "string option"
  required :: bool
  eager :: bool
  jselect :: "bool option"

type_synonym JoinOptions = "(string \<times> JoinOption) list"

text \<open>\<open>QueryOptions.filter\<close>: a function of the search so far, an array of filters, a
  search condition, or absent.\<close>

datatype QueryFilterOption =
    FilterFunction "SCondition \<Rightarrow> bool \<Rightarrow> SCondition"
  | FilterArray "QueryFilter list"
  | FilterCondition SCondition
  | FilterAbsent

record QueryOptions = ColumnOptions +
  qfilter :: QueryFilterOption
  qjoin :: JoinOptions
  qsort :: "QuerySort list"
  qlimit :: "nat option"
  maxLimit :: "nat option"
  qcache :: "nat option"
  alwaysPaginate :: bool
  softDelete :: bool

datatype error =
    BadRequestException string
  | RequestQueryException string
  | NotFoundException string
  | TypeError string

text \<open>
  A custom operator of the route: \<open>query\<close> builds the SQL fragment from the field and
  the parameter name and may throw (\<open>None\<close>); \<open>params\<close> replaces the bound parameters
  when given.
\<close>

record CustomOperator =
  isArrayOp :: bool
  cquery :: "string \<Rightarrow> string \<Rightarrow> string option"
  cparams :: "(string \<times> json) list option"

type_synonym CustomOperators = "(string \<times> CustomOperator) list"

text \<open>
  The schema a \<open>TypeOrmCrudService\<close> reads from its repository: the relation graph of an
  entity, unfolded as a tree (a relation path is walked one property at a time).
\<close>

datatype EntityMetadata =
  EntityMetadata
    (em_columns: "string list")
    (em_primaryColumns: "string list")
    (em_relations: "(string \<times> EntityMetadata) list")

text \<open>The fields of a \<open>TypeOrmCrudService\<close> instance that are fixed at construction.\<close>

record EntityColumns =
  alias' :: string
  entityColumns :: "string list"
  entityPrimaryColumns :: "string list"

record Service = EntityColumns +
  dbName :: string
  entityHasDeleteColumn :: bool
  entityColumnsHash :: "(string \<times> string) list"
  ownColumns :: "(string \<times> string) list"
  relations :: "(string \<times> EntityMetadata) list"

section \<open>Column selection\<close>

definition getAllowedColumns :: "string list \<Rightarrow> 'a ColumnOptions_scheme \<Rightarrow> string list" where
  "getAllowedColumns columns options =
     (if \<not> full (exclude options) \<and> \<not> full (allow options) then columns
      else filter
        (\<lambda>column.
           (if full (exclude options)
            then \<not> list_ex (\<lambda>col. col = column) (elems (exclude options)) else True) \<and>
           (if full (allow options)
            then list_ex (\<lambda>col. col = column) (elems (allow options)) else True))
        columns)"

definition getSelect ::
  "'s EntityColumns_scheme \<Rightarrow> 'p ParsedRequestParams_scheme \<Rightarrow> 'q ColumnOptions_scheme \<Rightarrow> string list"
where
  "getSelect svc query options =
     (let allowed = getAllowedColumns (entityColumns svc) options;
          columns = (if pfields query \<noteq> []
                     then filter (\<lambda>f. list_ex (\<lambda>col. f = col) allowed) (pfields query)
                     else allowed);
          select = map (\<lambda>col. alias' svc @ ''.'' @ col)
                     (uniq ((if full (persist options) then elems (persist options) else [])
                            @ columns @ entityPrimaryColumns svc))
      in uniq select)"

section \<open>Strings\<close>

text \<open>\<open>s.split(c)\<close> on a one-character separator.\<close>

fun split_char :: "char \<Rightarrow> string \<Rightarrow> string list" where
  "split_char d [] = [[]]"
| "split_char d (c # cs) =
     (if c = d then [] # split_char d cs
      else (case split_char d cs of w # ws \<Rightarrow> (c # w) # ws | [] \<Rightarrow> [[c]]))"

text \<open>\<open>xs.join(sep)\<close>.\<close>

fun join_with :: "string \<Rightarrow> string list \<Rightarrow> string" where
  "join_with sep [] = []"
| "join_with sep [x] = x"
| "join_with sep (x # y # ys) = x @ sep @ join_with sep (y # ys)"

definition string_of_int :: "int \<Rightarrow> string" where
  "string_of_int i = (if i < 0 then CHR ''-'' # string_of_nat (nat (- i)) else string_of_nat (nat i))"

text \<open>String conversion of a value, as a template literal performs it.\<close>

fun js_string :: "json \<Rightarrow> string" where
  "js_string JUndefined = ''undefined''"
| "js_string JNull = ''null''"
| "js_string (JBool b) = (if b then ''true'' else ''false'')"
| "js_string (JNum n) = string_of_int n"
| "js_string (JStr s) = s"
| "js_string (JArr xs) = join_with '','' (map (\<lambda>x. if isNil x then [] else js_string x) xs)"
| "js_string (JObj kvs) = ''[object Object]''"

definition lower_char :: "char \<Rightarrow> char" where
  "lower_char c =
     (let n = (of_char c :: nat) in if 65 \<le> n \<and> n \<le> 90 then char_of (n + 32) else c)"


section \<open>Regular expressions\<close>

text \<open>
  The four signature patterns are global, case-insensitive JavaScript regular expressions.
  The fragment they use: a literal, an ordered alternative, a sequence, and the greedy
  star of one character or of \<open>[^\n]\<close>. Matching is by backtracking, as in JavaScript:
  the first alternative that lets the rest match wins, and a star gives back characters
  from its longest run.
\<close>

datatype regex =
    Lit string
  | Alt regex regex
  | Seq regex regex
  | Star char
  | StarNotNewline

definition ci_eq :: "char \<Rightarrow> char \<Rightarrow> bool" where
  "ci_eq a b = (lower_char a = lower_char b)"

fun ci_prefix :: "string \<Rightarrow> string \<Rightarrow> bool" where
  "ci_prefix [] s = True"
| "ci_prefix (a # as) [] = False"
| "ci_prefix (a # as) (b # bs) = (ci_eq a b \<and> ci_prefix as bs)"

text \<open>The greedy star of a character class: the longest run first, then shorter ones.\<close>

fun star_match :: "(char \<Rightarrow> bool) \<Rightarrow> string \<Rightarrow> (string \<Rightarrow> string option) \<Rightarrow> string option" where
  "star_match p [] k = k []"
| "star_match p (c # cs) k =
     (if p c
      then (case star_match p cs k of Some r \<Rightarrow> Some r | None \<Rightarrow> k (c # cs))
      else k (c # cs))"

text \<open>\<open>rx_match r s k\<close>: match \<open>r\<close> at the start of \<open>s\<close> and hand the rest to \<open>k\<close>.\<close>

fun rx_match :: "regex \<Rightarrow> string \<Rightarrow> (string \<Rightarrow> string option) \<Rightarrow> string option" where
  "rx_match (Lit l) s k = (if ci_prefix l s then k (drop (length l) s) else None)"
| "rx_match (Alt a b) s k =
     (case rx_match a s k of Some r \<Rightarrow> Some r | None \<Rightarrow> rx_match b s k)"
| "rx_match (Seq a b) s k = rx_match a s (\<lambda>s'. rx_match b s' k)"
| "rx_match (Star c) s k = star_match (\<lambda>x. ci_eq x c) s k"
| "rx_match StarNotNewline s k = star_match (\<lambda>x. x \<noteq> CHR 0x0A) s k"

text \<open>The first match in \<open>s\<close>, leftmost start first: the offset at which it ends.\<close>

fun rx_exec :: "regex \<Rightarrow> string \<Rightarrow> nat option" where
  "rx_exec r [] = (case rx_match r [] Some of Some rest \<Rightarrow> Some 0 | None \<Rightarrow> None)"
| "rx_exec r (c # cs) =
     (case rx_match r (c # cs) Some of
        Some rest \<Rightarrow> Some (length (c # cs) - length rest)
      | None \<Rightarrow> map_option Suc (rx_exec r cs))"

text \<open>
  \<open>re.test(s)\<close> on a global regular expression: the search starts at \<open>lastIndex\<close>; a
  match leaves \<open>lastIndex\<close> at its end, a failure resets it to 0. The result is the
  answer and the new \<open>lastIndex\<close>.
\<close>

definition regex_test :: "regex \<Rightarrow> nat \<Rightarrow> string \<Rightarrow> bool \<times> nat" where
  "regex_test r lastIndex s =
     (if length s < lastIndex then (False, 0)
      else (case rx_exec r (drop lastIndex s) of
              Some e \<Rightarrow> (True, lastIndex + e)
            | None \<Rightarrow> (False, 0)))"

definition alts :: "string list \<Rightarrow> regex" where
  "alts ls = foldr (\<lambda>l r. Alt (Lit l) r) (butlast ls) (Lit (last ls))"

definition quote :: string where
  "quote = [CHR 0x27]"

text \<open>
  \<^verbatim>\<open>/(%27)|(\')|(--)|(%23)|(#)/gi\<close>,
  \<^verbatim>\<open>/((%3D)|(=))[^\n]*((%27)|(\')|(--)|(%3B)|(;))/gi\<close>,
  \<^verbatim>\<open>/w*((%27)|(\'))((%6F)|o|(%4F))((%72)|r|(%52))/gi\<close>,
  \<^verbatim>\<open>/((%27)|(\'))union/gi\<close>.
\<close>

definition sqlInjectionRegEx :: "regex list" where
  "sqlInjectionRegEx =
     [alts [''%27'', quote, ''--'', ''%23'', ''#''],
      Seq (alts [''%3D'', ''='']) (Seq StarNotNewline (alts [''%27'', quote, ''--'', ''%3B'', '';''])),
      Seq (Star CHR ''w'') (Seq (alts [''%27'', quote]) (Seq (alts [''%6F'', ''o'', ''%4F'']) (alts [''%72'', ''r'', ''%52'']))),
      Seq (alts [''%27'', quote]) (Lit ''union'')]"


section \<open>Field references\<close>

definition getFieldWithAlias :: "'a Service_scheme \<Rightarrow> string \<Rightarrow> bool \<Rightarrow> string" where
  "getFieldWithAlias svc fld sort' =
     (let i = (if dbName svc \<in> set [''mysql'', ''mariadb''] then [CHR 0x60] else [CHR 0x22]);
          cols = split_char CHR ''.'' fld
      in if length cols = 1 then
           (if sort' then alias' svc @ ''.'' @ fld
            else
              (let dbColName =
                 (case map_of (entityColumnsHash svc) fld of
                    Some c \<Rightarrow> (if c \<noteq> fld then c else fld)
                  | None \<Rightarrow> (if fld \<in> set objectPrototype then inheritedText fld else ''undefined''))
               in i @ alias' svc @ i @ ''.'' @ i @ dbColName @ i))
         else if length cols = 2 then fld
         else join_with ''.'' (drop (length cols - 2) cols))"

text \<open>
  \<open>throwBadRequestException\<close> is inherited from the abstract \<open>CrudService\<close>, which is not
  among the sources: it throws a \<open>BadRequestException\<close> with the given message.
\<close>

definition throwBadRequestException :: "string \<Rightarrow> error + 'a" where
  "throwBadRequestException msg = Inl (BadRequestException msg)"

text \<open>
  The signature check. The regular expressions are fields of the service and carry their
  \<open>lastIndex\<close> from one call to the next; the list \<open>li\<close> holds one per pattern. The loop
  stops at the first pattern that matches, where the exception is thrown.
\<close>

fun checkSqlInjectionLoop :: "regex list \<Rightarrow> nat list \<Rightarrow> string \<Rightarrow> (error + string) \<times> nat list" where
  "checkSqlInjectionLoop [] li fld = (Inr fld, li)"
| "checkSqlInjectionLoop (r # rs) [] fld = (Inr fld, [])"
| "checkSqlInjectionLoop (r # rs) (l # ls) fld =
     (case regex_test r l fld of
        (True, l') \<Rightarrow>
          (throwBadRequestException (''SQL injection detected: '' @ [CHR 0x22] @ fld @ [CHR 0x22]), l' # ls)
      | (False, l') \<Rightarrow>
          (case checkSqlInjectionLoop rs ls fld of (res, ls') \<Rightarrow> (res, l' # ls')))"

definition checkSqlInjection :: "nat list \<Rightarrow> string \<Rightarrow> (error + string) \<times> nat list" where
  "checkSqlInjection li fld = checkSqlInjectionLoop sqlInjectionRegEx li fld"

text \<open>\<open>params[k] = v\<close> on an object held as a property list.\<close>

definition obj_set :: "(string \<times> 'v) list \<Rightarrow> string \<Rightarrow> 'v \<Rightarrow> (string \<times> 'v) list" where
  "obj_set kvs k v = (if k \<in> fst ` set kvs then map (\<lambda>(k', v'). if k' = k then (k', v) else (k', v')) kvs
                      else kvs @ [(k, v)])"

fun mapSortLoop ::
  "'a Service_scheme \<Rightarrow> nat list \<Rightarrow> QuerySort list \<Rightarrow> (string \<times> string) list
     \<Rightarrow> (error + (string \<times> string) list) \<times> nat list" where
  "mapSortLoop svc li [] params = (Inr params, li)"
| "mapSortLoop svc li (s # ss) params =
     (let fld = getFieldWithAlias svc (sort_field s) True in
      case checkSqlInjection li fld of
        (Inl e, li') \<Rightarrow> (Inl e, li')
      | (Inr checkedFiled, li') \<Rightarrow> mapSortLoop svc li' ss (obj_set params checkedFiled (order s)))"

definition mapSort ::
  "'a Service_scheme \<Rightarrow> nat list \<Rightarrow> QuerySort list \<Rightarrow> (error + (string \<times> string) list) \<times> nat list" where
  "mapSort svc li sort' = mapSortLoop svc li sort' []"

definition getSort ::
  "'a Service_scheme \<Rightarrow> nat list \<Rightarrow> 'p ParsedRequestParams_scheme \<Rightarrow> 'q QueryOptions_scheme
     \<Rightarrow> (error + (string \<times> string) list) \<times> nat list" where
  "getSort svc li query options =
     (if psort query \<noteq> [] then mapSort svc li (psort query)
      else if qsort options \<noteq> [] then mapSort svc li (qsort options)
      else (Inr [], li))"

section \<open>Operators\<close>

record SqlFragment =
  str :: string
  params :: "(string \<times> json) list"

definition checkFilterIsArray :: "QueryFilter \<Rightarrow> bool option \<Rightarrow> error + unit" where
  "checkFilterIsArray cond withLength =
     (if (if isArray (qvalue cond)
          then (if isArrayFull (qvalue cond)
                then (case withLength of Some b \<Rightarrow> b | None \<Rightarrow> False)
                else True)
          else True)
      then throwBadRequestException (''Invalid column '' @ quote @ field cond @ quote @ '' value'')
      else Inr ())"

text \<open>\<open>v.length !== 2\<close> on a value that is neither \<open>null\<close> nor \<open>undefined\<close>.\<close>

fun length_not_2 :: "json \<Rightarrow> bool" where
  "length_not_2 (JArr xs) = (length xs \<noteq> 2)"
| "length_not_2 (JStr s) = (length s \<noteq> 2)"
| "length_not_2 (JObj kvs) = (map_of kvs ''length'' \<noteq> Some (JNum 2))"
| "length_not_2 _ = True"

text \<open>\<open>v[i]\<close>.\<close>

fun js_index :: "json \<Rightarrow> nat \<Rightarrow> json" where
  "js_index (JArr xs) i = (if i < length xs then xs ! i else JUndefined)"
| "js_index (JStr s) i = (if i < length s then JStr [s ! i] else JUndefined)"
| "js_index v i = obj_get v (string_of_nat i)"

definition getColumnType :: "'a Service_scheme \<Rightarrow> string \<Rightarrow> error + string" where
  "getColumnType svc fld =
     (case map_of (ownColumns svc) fld of
        None \<Rightarrow> Inl (TypeError ''Cannot read properties of undefined (reading type)'')
      | Some t \<Rightarrow> Inr t)"

definition normalizeOperator :: "string \<Rightarrow> string" where
  "normalizeOperator op = (case op of c # _ \<Rightarrow> (if c \<noteq> CHR ''$'' then CHR ''$'' # op else op) | [] \<Rightarrow> ''$'')"

definition mapOperatorsToQuery ::
  "'a Service_scheme \<Rightarrow> QueryFilter \<Rightarrow> string \<Rightarrow> CustomOperators \<Rightarrow> error + SqlFragment" where
  "mapOperatorsToQuery svc cond param customOperators =
     (let fld = getFieldWithAlias svc (field cond) False;
          likeOperator = (if dbName svc = ''postgres'' then ''ILIKE'' else ''LIKE'');
          v = qvalue cond;
          op = normalizeOperator (operator cond);
          bound = [(param, v)];
          arr = checkFilterIsArray cond None
      in
      if op = ''$eq'' then Inr \<lparr>str = fld @ '' = :'' @ param, params = bound\<rparr>
      else if op = ''$ne'' then Inr \<lparr>str = fld @ '' != :'' @ param, params = bound\<rparr>
      else if op = ''$gt'' then Inr \<lparr>str = fld @ '' > :'' @ param, params = bound\<rparr>
      else if op = ''$lt'' then Inr \<lparr>str = fld @ '' < :'' @ param, params = bound\<rparr>
      else if op = ''$gte'' then Inr \<lparr>str = fld @ '' >= :'' @ param, params = bound\<rparr>
      else if op = ''$lte'' then Inr \<lparr>str = fld @ '' <= :'' @ param, params = bound\<rparr>
      else if op = ''$starts'' then
        Inr \<lparr>str = fld @ '' LIKE :'' @ param, params = [(param, JStr (js_string v @ ''%''))]\<rparr>
      else if op = ''$ends'' then
        Inr \<lparr>str = fld @ '' LIKE :'' @ param, params = [(param, JStr (''%'' @ js_string v))]\<rparr>
      else if op = ''$cont'' then
        Inr \<lparr>str = fld @ '' LIKE :'' @ param, params = [(param, JStr (''%'' @ js_string v @ ''%''))]\<rparr>
      else if op = ''$excl'' then
        Inr \<lparr>str = fld @ '' NOT LIKE :'' @ param, params = [(param, JStr (''%'' @ js_string v @ ''%''))]\<rparr>
      else if op = ''$in'' then
        (case arr of Inl e \<Rightarrow> Inl e
         | Inr _ \<Rightarrow> Inr \<lparr>str = fld @ '' IN (:...'' @ param @ '')'', params = bound\<rparr>)
      else if op = ''$notin'' then
        (case arr of Inl e \<Rightarrow> Inl e
         | Inr _ \<Rightarrow> Inr \<lparr>str = fld @ '' NOT IN (:...'' @ param @ '')'', params = bound\<rparr>)
      else if op = ''$isnull'' then Inr \<lparr>str = fld @ '' IS NULL'', params = []\<rparr>
      else if op = ''$notnull'' then Inr \<lparr>str = fld @ '' IS NOT NULL'', params = []\<rparr>
      else if op = ''$between'' then
        (if isNil v then Inl (TypeError ''Cannot read properties of null (reading length)'')
         else (case checkFilterIsArray cond (Some (length_not_2 v)) of Inl e \<Rightarrow> Inl e
               | Inr _ \<Rightarrow>
                   Inr \<lparr>str = fld @ '' BETWEEN :'' @ param @ ''0 AND :'' @ param @ ''1'',
                        params = [(param @ ''0'', js_index v 0), (param @ ''1'', js_index v 1)]\<rparr>))
      else if op = ''$eqL'' then Inr \<lparr>str = ''LOWER('' @ fld @ '') = :'' @ param, params = bound\<rparr>
      else if op = ''$neL'' then Inr \<lparr>str = ''LOWER('' @ fld @ '') != :'' @ param, params = bound\<rparr>
      else if op = ''$startsL'' then
        Inr \<lparr>str = ''LOWER('' @ fld @ '') '' @ likeOperator @ '' :'' @ param,
             params = [(param, JStr (js_string v @ ''%''))]\<rparr>
      else if op = ''$endsL'' then
        Inr \<lparr>str = ''LOWER('' @ fld @ '') '' @ likeOperator @ '' :'' @ param,
             params = [(param, JStr (''%'' @ js_string v))]\<rparr>
      else if op = ''$contL'' then
        Inr \<lparr>str = ''LOWER('' @ fld @ '') '' @ likeOperator @ '' :'' @ param,
             params = [(param, JStr (''%'' @ js_string v @ ''%''))]\<rparr>
      else if op = ''$exclL'' then
        Inr \<lparr>str = ''LOWER('' @ fld @ '') NOT '' @ likeOperator @ '' :'' @ param,
             params = [(param, JStr (''%'' @ js_string v @ ''%''))]\<rparr>
      else if op = ''$inL'' then
        (case arr of Inl e \<Rightarrow> Inl e
         | Inr _ \<Rightarrow> Inr \<lparr>str = ''LOWER('' @ fld @ '') IN (:...'' @ param @ '')'', params = bound\<rparr>)
      else if op = ''$notinL'' then
        (case arr of Inl e \<Rightarrow> Inl e
         | Inr _ \<Rightarrow> Inr \<lparr>str = ''LOWER('' @ fld @ '') NOT IN (:...'' @ param @ '')'', params = bound\<rparr>)
      else if op = ''$contArr'' then
        (case arr of Inl e \<Rightarrow> Inl e
         | Inr _ \<Rightarrow>
             (case getColumnType svc (field cond) of Inl e \<Rightarrow> Inl e
              | Inr t \<Rightarrow> Inr \<lparr>str = fld @ '' @> ARRAY[:...'' @ param @ '']::'' @ t @ ''[]'', params = bound\<rparr>))
      else if op = ''$intersectsArr'' then
        (case arr of Inl e \<Rightarrow> Inl e
         | Inr _ \<Rightarrow>
             (case getColumnType svc (field cond) of Inl e \<Rightarrow> Inl e
              | Inr t \<Rightarrow> Inr \<lparr>str = fld @ '' && ARRAY[:...'' @ param @ '']::'' @ t @ ''[]'', params = bound\<rparr>))
      else
        (case map_of customOperators op of
           None \<Rightarrow> Inr \<lparr>str = fld @ '' = :'' @ param, params = bound\<rparr>
         | Some customOperator \<Rightarrow>
             (case (if isArrayOp customOperator then arr else Inr ()) of
                Inl e \<Rightarrow> throwBadRequestException (''Invalid custom operator '' @ quote @ fld @ quote @ '' query'')
              | Inr _ \<Rightarrow>
                  (case cquery customOperator fld param of
                     None \<Rightarrow> throwBadRequestException (''Invalid custom operator '' @ quote @ fld @ quote @ '' query'')
                   | Some s \<Rightarrow>
                       Inr \<lparr>str = s,
                            params = (case cparams customOperator of Some p \<Rightarrow> p | None \<Rightarrow> bound)\<rparr>))))"


section \<open>Query builders\<close>

text \<open>
  What the compiler asks of the ORM's query builder. A where clause is a combinator
  (\<open>and\<close>, \<open>or\<close>, \<open>simple\<close>) with a condition: a SQL fragment, a bracket group, or a
  negated condition. A bracket group is filled by a sub-builder, which shares the
  parameters of its parent and starts with no where clause. The state holds the where
  clauses of every builder of the request, by builder; builder 0 is the request's own.
  \<open>hrtime\<close> is the clock: its \<open>n\<close>-th reading.
\<close>

datatype WhereCondition =
    WStr string
  | WBrackets "(string \<times> WhereCondition) list"
  | WNot WhereCondition

type_synonym WhereClause = "string \<times> WhereCondition"

record Builders =
  wheres :: "WhereClause list list"
  parameters :: "(string \<times> json) list"
  hrtime :: "nat \<Rightarrow> nat \<times> nat"
  hrtime_reads :: nat

definition createQueryBuilder :: "'b Builders_scheme \<Rightarrow> nat \<times> 'b Builders_scheme" where
  "createQueryBuilder st = (length (wheres st), st\<lparr>wheres := wheres st @ [[]]\<rparr>)"

definition pushWhere :: "'b Builders_scheme \<Rightarrow> nat \<Rightarrow> WhereClause \<Rightarrow> 'b Builders_scheme" where
  "pushWhere st builder clause = st\<lparr>wheres := (wheres st)[builder := wheres st ! builder @ [clause]]\<rparr>"

definition setParameters :: "'b Builders_scheme \<Rightarrow> (string \<times> json) list \<Rightarrow> 'b Builders_scheme" where
  "setParameters st ps = st\<lparr>parameters := fold (\<lambda>(k, v) m. obj_set m k v) ps (parameters st)\<rparr>"

definition andWhere :: "'b Builders_scheme \<Rightarrow> nat \<Rightarrow> string \<Rightarrow> (string \<times> json) list \<Rightarrow> 'b Builders_scheme" where
  "andWhere st builder s ps = setParameters (pushWhere st builder (''and'', WStr s)) ps"

definition orWhere :: "'b Builders_scheme \<Rightarrow> nat \<Rightarrow> string \<Rightarrow> (string \<times> json) list \<Rightarrow> 'b Builders_scheme" where
  "orWhere st builder s ps = setParameters (pushWhere st builder (''or'', WStr s)) ps"

text \<open>\<open>xs.forEach(f)\<close> where \<open>f\<close> changes the state and may throw.\<close>

fun forEach :: "'a list \<Rightarrow> ('a \<Rightarrow> 's \<Rightarrow> error + 's) \<Rightarrow> 's \<Rightarrow> error + 's" where
  "forEach [] f st = Inr st"
| "forEach (x # xs) f st = (case f x st of Inl e \<Rightarrow> Inl e | Inr st' \<Rightarrow> forEach xs f st')"

lemma forEach_cong [fundef_cong]:
  "xs = ys \<Longrightarrow> st = st' \<Longrightarrow> (\<And>x s. x \<in> set ys \<Longrightarrow> f x s = g x s) \<Longrightarrow> forEach xs f st = forEach ys g st'"
proof (induction ys arbitrary: xs st st')
  case Nil
  then show ?case by simp
next
  case (Cons y ys)
  then show ?case by (auto split: sum.splits)
qed

text \<open>
  \<open>builderAddBrackets(builder, condition, new Brackets(whereFactory), negated)\<close>. The
  factory runs on a fresh sub-builder \<open>qb\<close>; its where clauses then become one clause of
  \<open>builder\<close>: negated with the combinator of \<open>condition\<close>, or through \<open>andWhere\<close> or
  \<open>orWhere\<close>.
\<close>

definition builderAddBrackets ::
  "'b Builders_scheme \<Rightarrow> nat \<Rightarrow> string \<Rightarrow> (nat \<Rightarrow> 'b Builders_scheme \<Rightarrow> error + 'b Builders_scheme) \<Rightarrow> bool
     \<Rightarrow> error + 'b Builders_scheme" where
  "builderAddBrackets st builder condition whereFactory negated =
     (case createQueryBuilder st of (qb, st1) \<Rightarrow>
        (case whereFactory qb st1 of
           Inl e \<Rightarrow> Inl e
         | Inr st2 \<Rightarrow>
             (if negated then
                Inr (pushWhere st2 builder
                       (if condition = ''$and'' then ''and'' else if condition = ''$or'' then ''or'' else ''simple'',
                        WNot (WBrackets (wheres st2 ! qb))))
              else if condition = ''$and'' then Inr (pushWhere st2 builder (''and'', WBrackets (wheres st2 ! qb)))
              else Inr (pushWhere st2 builder (''or'', WBrackets (wheres st2 ! qb))))))"

lemma builderAddBrackets_cong [fundef_cong]:
  "st = st' \<Longrightarrow> builder = builder' \<Longrightarrow> condition = condition' \<Longrightarrow> negated = negated'
   \<Longrightarrow> (\<And>qb s. f qb s = g qb s)
   \<Longrightarrow> builderAddBrackets st builder condition f negated = builderAddBrackets st' builder' condition' g negated'"
  by (simp add: builderAddBrackets_def)

definition setAndWhere ::
  "'a Service_scheme \<Rightarrow> 'b Builders_scheme \<Rightarrow> QueryFilter \<Rightarrow> string \<Rightarrow> nat \<Rightarrow> CustomOperators
     \<Rightarrow> error + 'b Builders_scheme" where
  "setAndWhere svc st cond i builder customOperators =
     (case mapOperatorsToQuery svc cond (''andWhere'' @ i) customOperators of
        Inl e \<Rightarrow> Inl e
      | Inr q \<Rightarrow> Inr (andWhere st builder (str q) (params q)))"

definition setOrWhere ::
  "'a Service_scheme \<Rightarrow> 'b Builders_scheme \<Rightarrow> QueryFilter \<Rightarrow> string \<Rightarrow> nat \<Rightarrow> CustomOperators
     \<Rightarrow> error + 'b Builders_scheme" where
  "setOrWhere svc st cond i builder customOperators =
     (case mapOperatorsToQuery svc cond (''orWhere'' @ i) customOperators of
        Inl e \<Rightarrow> Inl e
      | Inr q \<Rightarrow> Inr (orWhere st builder (str q) (params q)))"

text \<open>\<^verbatim>\<open>field.replace(/./g, '_')\<close>: every character but a line terminator becomes \<open>_\<close>.\<close>

definition safeFieldName :: "string \<Rightarrow> string" where
  "safeFieldName fld = map (\<lambda>c. if c = CHR 0x0A \<or> c = CHR 0x0D then c else CHR ''_'') fld"

definition builderSetWhere ::
  "'a Service_scheme \<Rightarrow> 'b Builders_scheme \<Rightarrow> nat \<Rightarrow> string \<Rightarrow> string \<Rightarrow> json \<Rightarrow> CustomOperators \<Rightarrow> string
     \<Rightarrow> error + 'b Builders_scheme" where
  "builderSetWhere svc st builder condition fld v customOperators operator' =
     (let time = hrtime st (hrtime_reads st);
          st1 = st\<lparr>hrtime_reads := Suc (hrtime_reads st)\<rparr>;
          index = safeFieldName fld @ string_of_nat (fst time) @ string_of_nat (snd time);
          cond = \<lparr>field = fld, operator = (if isNull v then ''$isnull'' else operator'), qvalue = v\<rparr>
      in if condition = ''$and'' then setAndWhere svc st1 cond index builder customOperators
         else setOrWhere svc st1 cond index builder customOperators)"

fun elements :: "json \<Rightarrow> json list" where
  "elements (JArr xs) = xs"
| "elements _ = []"

text \<open>\<open>Object.keys\<close> of a value that is neither \<open>null\<close> nor \<open>undefined\<close>.\<close>

fun objectKeys :: "json \<Rightarrow> string list" where
  "objectKeys (JStr s) = map string_of_nat [0..<length s]"
| "objectKeys v = objKeys v"

lemma size_map_of:
  "map_of kvs k = Some x \<Longrightarrow> size x < Suc (size_list (size_prod (\<lambda>_. 0) size) kvs)"
  by (induction kvs) (auto split: if_splits)

lemma size_map_of_zip:
  "map_of (zip ks xs) k = Some x \<Longrightarrow> size (x::json) < Suc (size_list size xs)"
proof -
  assume "map_of (zip ks xs) k = Some x"
  then have "x \<in> set xs" by (meson in_set_zipE map_of_SomeD)
  then show ?thesis by (induction xs) auto
qed

lemma size_obj_get: "isObject v \<Longrightarrow> size (obj_get v k) < size v"
  by (cases v) (auto simp: obj_get_def split: option.splits dest: size_map_of size_map_of_zip)

lemma size_elements_obj_get:
  "isObject v \<Longrightarrow> item \<in> set (elements (obj_get v k)) \<Longrightarrow> size item < size v"
proof -
  assume v: "isObject v" and i: "item \<in> set (elements (obj_get v k))"
  from i have "size item < size (obj_get v k)"
    by (cases "obj_get v k") (auto simp: less_Suc_eq_le size_list_estimation')
  with size_obj_get [OF v, of k] show ?thesis by simp
qed

lemma size_item:
  "isObject v \<Longrightarrow> elements (obj_get v k) = xs \<Longrightarrow> item \<in> set xs \<Longrightarrow> size item < size v"
  using size_elements_obj_get by blast

function setSearchFieldObjectCondition ::
  "'a Service_scheme \<Rightarrow> 'b Builders_scheme \<Rightarrow> nat \<Rightarrow> string \<Rightarrow> string \<Rightarrow> json \<Rightarrow> CustomOperators
     \<Rightarrow> error + 'b Builders_scheme" where
  "setSearchFieldObjectCondition svc st builder condition fld object customOperators =
     (if isObject object then
        (let operators = objKeys object in
         if length operators = 1 \<and> hd operators \<noteq> ''$or'' then
           builderSetWhere svc st builder condition fld (obj_get object (hd operators)) customOperators (hd operators)
         else
           builderAddBrackets st builder condition
             (\<lambda>qb. forEach operators
                (\<lambda>operator' s.
                   if operator' \<noteq> ''$or'' then
                     builderSetWhere svc s qb condition fld (obj_get object operator') customOperators operator'
                   else if isNil (obj_get object ''$or'') then
                     Inl (TypeError ''Cannot convert undefined or null to object'')
                   else if length (objectKeys (obj_get object ''$or'')) = 1 then
                     setSearchFieldObjectCondition svc s qb condition fld (obj_get object ''$or'') customOperators
                   else
                     builderAddBrackets s qb condition
                       (\<lambda>qb2 s2. setSearchFieldObjectCondition svc s2 qb2 ''$or'' fld (obj_get object ''$or'') customOperators)
                       False))
             False)
      else Inr st)"
  by pat_completeness auto
termination
  by (relation "measure (\<lambda>(svc, st, builder, condition, fld, object, customOperators). size object)")
     (auto simp: size_obj_get)

declare setSearchFieldObjectCondition.simps [simp del]

text \<open>A leaf entry \<open>field: value\<close> of a search object, combined with \<open>condition\<close>.\<close>

definition setFieldCondition ::
  "'a Service_scheme \<Rightarrow> 'b Builders_scheme \<Rightarrow> nat \<Rightarrow> string \<Rightarrow> string \<Rightarrow> json \<Rightarrow> CustomOperators
     \<Rightarrow> error + 'b Builders_scheme" where
  "setFieldCondition svc st builder condition fld v customOperators =
     (if \<not> isObject v then builderSetWhere svc st builder condition fld v customOperators ''$eq''
      else setSearchFieldObjectCondition svc st builder condition fld v customOperators)"

function setSearchCondition ::
  "'a Service_scheme \<Rightarrow> 'b Builders_scheme \<Rightarrow> nat \<Rightarrow> SCondition \<Rightarrow> CustomOperators \<Rightarrow> string
     \<Rightarrow> error + 'b Builders_scheme" where
  "setSearchCondition svc st builder search customOperators condition =
     (if isObject search then
        (let keys = objKeys search in
         if keys \<noteq> [] then
           (if isArrayFull (obj_get search ''$not'') then
              builderAddBrackets st builder condition
                (\<lambda>qb. forEach (elements (obj_get search ''$not''))
                   (\<lambda>item s. setSearchCondition svc s qb item customOperators ''$and''))
                True
            else if isArrayFull (obj_get search ''$and'') then
              (case elements (obj_get search ''$and'') of
                 [item] \<Rightarrow> setSearchCondition svc st builder item customOperators condition
               | items \<Rightarrow>
                   builderAddBrackets st builder condition
                     (\<lambda>qb. forEach items
                        (\<lambda>item s. setSearchCondition svc s qb item customOperators ''$and''))
                     False)
            else if isArrayFull (obj_get search ''$or'') then
              (if length keys = 1 then
                 (case elements (obj_get search ''$or'') of
                    [item] \<Rightarrow> setSearchCondition svc st builder item customOperators condition
                  | items \<Rightarrow>
                      builderAddBrackets st builder condition
                        (\<lambda>qb. forEach items
                           (\<lambda>item s. setSearchCondition svc s qb item customOperators ''$or''))
                        False)
               else
                 builderAddBrackets st builder condition
                   (\<lambda>qb. forEach keys
                      (\<lambda>fld s.
                         if fld \<noteq> ''$or'' then
                           setFieldCondition svc s qb ''$and'' fld (obj_get search fld) customOperators
                         else
                           (case elements (obj_get search ''$or'') of
                              [item] \<Rightarrow> setSearchCondition svc s builder item customOperators ''$and''
                            | items \<Rightarrow>
                                builderAddBrackets s qb ''$and''
                                  (\<lambda>qb2. forEach items
                                     (\<lambda>item s2. setSearchCondition svc s2 qb2 item customOperators ''$or''))
                                  False)))
                   False)
            else
              (if length keys = 1 then
                 setFieldCondition svc st builder condition (hd keys) (obj_get search (hd keys)) customOperators
               else
                 builderAddBrackets st builder condition
                   (\<lambda>qb. forEach keys
                      (\<lambda>fld s. setFieldCondition svc s qb ''$and'' fld (obj_get search fld) customOperators))
                   False))
         else Inr st)
      else Inr st)"
  by pat_completeness auto
termination
  by (relation "measure (\<lambda>(svc, st, builder, search, customOperators, condition). size search)")
     (auto intro: size_item)

declare setSearchCondition.simps [simp del]

section \<open>Joins\<close>

record IAllowedRelation =
  ar_alias :: "string option"
  ar_nested :: bool
  ar_name :: string
  ar_path :: "string option"
  ar_columns :: "string list"
  ar_primaryColumns :: "string list"
  ar_allowedColumns :: "string list"

text \<open>
  The part of a service that changes while it runs: the memo of resolved relations, the
  \<open>lastIndex\<close> of each signature pattern, and what was written to the console.
\<close>

record ServiceState =
  entityRelationsHash :: "(string \<times> IAllowedRelation) list"
  lastIndex :: "nat list"
  console :: "string list"

text \<open>A join of the select query builder, as \<open>innerJoin\<close> or \<open>leftJoin\<close> records it.\<close>

record JoinAttribute =
  ja_direction :: string
  ja_path :: string
  ja_alias :: string
  ja_condition :: "string option"

record SelectQueryBuilder = Builders +
  selects :: "string list"
  joins :: "JoinAttribute list"
  orderBys :: "(string \<times> string) list"
  qb_take :: "nat option"
  qb_skip :: "nat option"
  qb_cache :: "nat option"
  qb_withDeleted :: bool

definition getEntityColumns :: "EntityMetadata \<Rightarrow> string list \<times> string list" where
  "getEntityColumns entityMetadata = (em_columns entityMetadata, em_primaryColumns entityMetadata)"

text \<open>
  The \<open>reduce\<close> over the components of a nested relation path: the relations still to
  search, the metadata found by the last step, the last property name, the parent path
  and the position.
\<close>

fun walkRelations ::
  "nat \<Rightarrow> string list \<Rightarrow> (string \<times> EntityMetadata) list \<times> EntityMetadata option \<times> string \<times> string \<times> nat
     \<Rightarrow> (string \<times> EntityMetadata) list \<times> EntityMetadata option \<times> string \<times> string \<times> nat" where
  "walkRelations n [] acc = acc"
| "walkRelations n (propertyName # rest) (rels, relationMetadata, name, parentPath, i) =
     (let found = (if rels \<noteq> [] then map_of rels propertyName else None);
          relationMetadata' = found;
          relations' = (case relationMetadata' of Some m \<Rightarrow> em_relations m | None \<Rightarrow> []);
          parentPath' = (if i \<noteq> n - 1
                         then (if parentPath = [] then propertyName else parentPath @ ''.'' @ propertyName)
                         else parentPath)
      in walkRelations n rest (relations', relationMetadata', propertyName, parentPath', Suc i))"

definition getRelationMetadata ::
  "'a Service_scheme \<Rightarrow> string \<Rightarrow> JoinOption \<Rightarrow> (string \<times> IAllowedRelation) list
     \<Rightarrow> IAllowedRelation option \<times> (string \<times> IAllowedRelation) list" where
  "getRelationMetadata svc fld options hash =
     (let allowedRelation =
        (case map_of hash fld of
           Some r \<Rightarrow> Some r
         | None \<Rightarrow>
             (let flds = split_char CHR ''.'' fld;
                  (relationMetadata, nested, name, path, parentPath) =
                    (if length flds = 1 then
                       (case map_of (relations svc) (hd flds) of
                          Some found \<Rightarrow> (Some found, False, hd flds, Some (alias' svc @ ''.'' @ hd flds), [])
                        | None \<Rightarrow> (None, False, [], None, []))
                     else
                       (case walkRelations (length flds) flds (relations svc, None, [], [], 0) of
                          (rels, m, name, parentPath, i) \<Rightarrow> (m, True, name, None, parentPath)))
              in case relationMetadata of
                   None \<Rightarrow> None
                 | Some m \<Rightarrow>
                     (case getEntityColumns m of (columns, primaryColumns) \<Rightarrow>
                        (let path' =
                           (if path = None \<and> parentPath \<noteq> [] then
                              (case map_of hash parentPath of
                                 Some parentAllowedRelation \<Rightarrow>
                                   (if full (ar_alias parentAllowedRelation)
                                    then Some (elems (ar_alias parentAllowedRelation) @ ''.'' @ name)
                                    else Some fld)
                               | None \<Rightarrow> path)
                            else path)
                         in Some \<lparr>ar_alias = jalias options, ar_nested = nested, ar_name = name,
                                  ar_path = path', ar_columns = columns,
                                  ar_primaryColumns = primaryColumns, ar_allowedColumns = []\<rparr>))))
      in case allowedRelation of
           None \<Rightarrow> (None, hash)
         | Some r \<Rightarrow>
             (let toSave = r\<lparr>ar_allowedColumns := getAllowedColumns (ar_columns r) options\<rparr>;
                  hash1 = obj_set hash fld toSave;
                  hash2 = (if full (jalias options) then obj_set hash1 (elems (jalias options)) toSave
                           else hash1)
              in (Some toSave, hash2)))"


definition convertArrayToQuery :: "SqlFragment list \<Rightarrow> SqlFragment" where
  "convertArrayToQuery data' =
     \<lparr>str = join_with '' AND '' (map str data'),
      params = fold (\<lambda>item ps. fold (\<lambda>(k, v) m. obj_set m k v) (params item) ps) data' []\<rparr>"

text \<open>\<open>cond.on.map((condition, i) => mapOperatorsToQuery(condition, `andCondition${i}`, {}))\<close>.\<close>

fun mapOnConditions :: "'a Service_scheme \<Rightarrow> nat \<Rightarrow> QueryFilter list \<Rightarrow> error + SqlFragment list" where
  "mapOnConditions svc i [] = Inr []"
| "mapOnConditions svc i (c # cs) =
     (case mapOperatorsToQuery svc c (''andCondition'' @ string_of_nat i) [] of
        Inl e \<Rightarrow> Inl e
      | Inr q \<Rightarrow> (case mapOnConditions svc (Suc i) cs of Inl e \<Rightarrow> Inl e | Inr qs \<Rightarrow> Inr (q # qs)))"

text \<open>
  \<open>builder.innerJoin\<close> and \<open>builder.leftJoin\<close>. The query builder is TypeORM's, not part
  of the sources: it binds the parameters, records the join, and, when the path is not the
  property of an alias, reads \<open>path.substr\<close>, which throws for an \<open>undefined\<close> path.
\<close>

definition addJoin ::
  "'b SelectQueryBuilder_scheme \<Rightarrow> string \<Rightarrow> string option \<Rightarrow> string \<Rightarrow> SqlFragment option
     \<Rightarrow> error + 'b SelectQueryBuilder_scheme" where
  "addJoin builder relationType path alias'' on' =
     (case path of
        None \<Rightarrow> Inl (TypeError (''Cannot read properties of undefined (reading '' @ [CHR 0x27] @ ''substr'' @ [CHR 0x27] @ '')''))
      | Some p \<Rightarrow>
          (case on' of
             None \<Rightarrow>
               Inr (builder\<lparr>joins := joins builder
                  @ [\<lparr>ja_direction = relationType, ja_path = p, ja_alias = alias'', ja_condition = None\<rparr>]\<rparr>)
           | Some q \<Rightarrow>
               Inr ((setParameters builder (params q))\<lparr>joins := joins builder
                  @ [\<lparr>ja_direction = relationType, ja_path = p, ja_alias = alias'', ja_condition = Some (str q)\<rparr>]\<rparr>)))"

definition relationWarning :: "string \<Rightarrow> JoinOptions \<Rightarrow> string" where
  "relationWarning fld joinOptions =
     ''relation '' @ [CHR 0x22] @ fld @ [CHR 0x22]
       @ '' not found in allowed relations in the controller. Did you mean to use one of these? [''
       @ join_with '', '' (map fst joinOptions) @ '']''"

text \<open>
  \<open>joinOptions[field]\<close>: the route's join options are a plain object, so a name that is
  not declared there may still read as an inherited member, which carries no option.
\<close>

definition inheritedJoinOption :: JoinOption where
  "inheritedJoinOption =
     \<lparr>allow = None, exclude = None, persist = None,
      jalias = None, required = False, eager = False, jselect = None\<rparr>"

definition joinOption :: "JoinOptions \<Rightarrow> string \<Rightarrow> JoinOption option" where
  "joinOption joinOptions fld =
     (case map_of joinOptions fld of
        Some options \<Rightarrow> Some options
      | None \<Rightarrow> (if fld \<in> set objectPrototype then Some inheritedJoinOption else None))"

definition setJoin ::
  "'a Service_scheme \<Rightarrow> QueryJoin \<Rightarrow> JoinOptions \<Rightarrow> ServiceState \<times> 'b SelectQueryBuilder_scheme
     \<Rightarrow> error + ServiceState \<times> 'b SelectQueryBuilder_scheme" where
  "setJoin svc cond joinOptions world =
     (case world of (ss, builder) \<Rightarrow>
        (case joinOption joinOptions (join_field cond) of
           None \<Rightarrow> Inr (ss\<lparr>console := console ss @ [relationWarning (join_field cond) joinOptions]\<rparr>, builder)
         | Some options \<Rightarrow>
             (case getRelationMetadata svc (join_field cond) options (entityRelationsHash ss) of
                (None, hash) \<Rightarrow> Inr (ss\<lparr>entityRelationsHash := hash\<rparr>, builder)
              | (Some allowedRelation, hash) \<Rightarrow>
                  (let ss1 = ss\<lparr>entityRelationsHash := hash\<rparr>;
                       relationType = (if required options then ''innerJoin'' else ''leftJoin'');
                       alias'' = (if full (jalias options) then elems (jalias options) else ar_name allowedRelation)
                   in case (case on cond of
                              None \<Rightarrow> addJoin builder relationType (ar_path allowedRelation) alias'' None
                            | Some conds \<Rightarrow>
                                (case mapOnConditions svc 0 conds of
                                   Inl e \<Rightarrow> Inl e
                                 | Inr qs \<Rightarrow>
                                     addJoin builder relationType (ar_path allowedRelation) alias''
                                       (Some (convertArrayToQuery qs)))) of
                        Inl e \<Rightarrow> Inl e
                      | Inr builder1 \<Rightarrow>
                          (if jselect options \<noteq> Some False then
                             (let columns =
                                (if full (join_select cond)
                                 then filter (\<lambda>column. list_ex (\<lambda>allowed. allowed = column)
                                                (ar_allowedColumns allowedRelation))
                                        (elems (join_select cond))
                                 else ar_allowedColumns allowedRelation);
                                  select = map (\<lambda>col. alias'' @ ''.'' @ col)
                                    (uniq (ar_primaryColumns allowedRelation
                                           @ (if full (persist options) then elems (persist options) else [])
                                           @ columns))
                              in Inr (ss1, builder1\<lparr>selects := selects builder1 @ uniq select\<rparr>))
                           else Inr (ss1, builder1))))))"

text \<open>
  The joins of \<open>createBuilder\<close>: the eager relations of the route first, then the requested
  joins that are not eager. Nothing is joined when the route declares no relation.
  \<open>eagerJoins\<close> is a plain object keyed by the eager relations, so \<open>eagerJoins[field]\<close>
  is truthy for these and for every inherited name.
\<close>

definition eagerJoinsRead :: "string list \<Rightarrow> string \<Rightarrow> bool" where
  "eagerJoinsRead eagerJoins fld = (fld \<in> set eagerJoins \<or> fld \<in> set objectPrototype)"

fun setEagerJoins ::
  "'a Service_scheme \<Rightarrow> 'p ParsedRequestParams_scheme \<Rightarrow> JoinOptions \<Rightarrow> string list
     \<Rightarrow> ServiceState \<times> 'b SelectQueryBuilder_scheme \<Rightarrow> string list
     \<Rightarrow> error + (ServiceState \<times> 'b SelectQueryBuilder_scheme) \<times> string list" where
  "setEagerJoins svc parsed joinOptions [] world eagerJoins = Inr (world, eagerJoins)"
| "setEagerJoins svc parsed joinOptions (a # allowedJoins) world eagerJoins =
     (if (case map_of joinOptions a of Some o' \<Rightarrow> eager o' | None \<Rightarrow> False) then
        (let cond = (case find (\<lambda>j. join_field j = a) (pjoin parsed) of
                       Some j \<Rightarrow> j
                     | None \<Rightarrow> \<lparr>join_field = a, join_select = None, on = None\<rparr>)
         in case setJoin svc cond joinOptions world of
              Inl e \<Rightarrow> Inl e
            | Inr world' \<Rightarrow> setEagerJoins svc parsed joinOptions allowedJoins world' (eagerJoins @ [a]))
      else setEagerJoins svc parsed joinOptions allowedJoins world eagerJoins)"

definition setJoins ::
  "'a Service_scheme \<Rightarrow> 'p ParsedRequestParams_scheme \<Rightarrow> JoinOptions
     \<Rightarrow> ServiceState \<times> 'b SelectQueryBuilder_scheme \<Rightarrow> error + ServiceState \<times> 'b SelectQueryBuilder_scheme" where
  "setJoins svc parsed joinOptions world =
     (let allowedJoins = map fst joinOptions in
      if hasLength allowedJoins then
        (case setEagerJoins svc parsed joinOptions allowedJoins world [] of
           Inl e \<Rightarrow> Inl e
         | Inr (world1, eagerJoins) \<Rightarrow>
             forEach (pjoin parsed)
               (\<lambda>j w. if \<not> eagerJoinsRead eagerJoins (join_field j) then setJoin svc j joinOptions w else Inr w)
               world1)
      else Inr world)"


section \<open>Request query parser\<close>

text \<open>Sequencing of steps that may throw.\<close>

definition andThen :: "error + 'a \<Rightarrow> ('a \<Rightarrow> error + 'b) \<Rightarrow> error + 'b" where
  "andThen m f = (case m of Inl e \<Rightarrow> Inl e | Inr x \<Rightarrow> f x)"

fun mapE :: "('a \<Rightarrow> error + 'b) \<Rightarrow> 'a list \<Rightarrow> error + 'b list" where
  "mapE f [] = Inr []"
| "mapE f (x # xs) = andThen (f x) (\<lambda>y. andThen (mapE f xs) (\<lambda>ys. Inr (y # ys)))"

record ParamOption =
  po_field :: string
  po_type :: string
  po_disabled :: bool

type_synonym ParamsOptions = "(string \<times> ParamOption) list"

text \<open>
  What the parser takes from outside the sources: the configured parameter names
  (\<open>RequestQueryBuilder.getOptions().paramNamesMap\<close>, a single name as a one-element
  list), \<open>JSON.parse\<close> (\<open>None\<close> when it throws), and the parsers of one entry of each
  kind, which validate with \<open>request-query.validator\<close> and convert values with
  \<open>JSON.parse\<close> and \<open>Date\<close>. What is proved holds for every choice of them.
\<close>

record ParserEnv =
  paramNamesMap :: "string \<Rightarrow> string list"
  JSON_parse :: "string \<Rightarrow> json option"
  parseValue :: "json \<Rightarrow> json"
  conditionParser :: "string \<Rightarrow> CustomOperators \<Rightarrow> json \<Rightarrow> error + QueryFilter"
  fieldsParser :: "json \<Rightarrow> error + string list"
  joinParser :: "json \<Rightarrow> error + QueryJoin"
  sortParser :: "json \<Rightarrow> error + QuerySort"
  numericParser :: "string \<Rightarrow> json \<Rightarrow> error + nat"
  parseExtraFromQueryParam :: "json \<Rightarrow> json"
  validateParamOption :: "ParamsOptions \<Rightarrow> string \<Rightarrow> error option"
  validateNumeric :: "json \<Rightarrow> string \<Rightarrow> error option"
  validateUUID :: "json \<Rightarrow> string \<Rightarrow> error option"

text \<open>\<open>RequestQueryParser.create()\<close>: the fields of a new parser.\<close>

definition create :: ParsedRequestParams where
  "create =
     \<lparr>pfields = [], paramsFilter = [], authPersist = JUndefined, classTransformOptions = JUndefined,
      psearch = JUndefined, pfilter = [], por = [], pjoin = [], psort = [], plimit = None,
      poffset = None, ppage = None, pcache = None, pincludeDeleted = None, pextra = JUndefined\<rparr>"

definition is_digit :: "char \<Rightarrow> bool" where
  "is_digit c = (let n = (of_char c :: nat) in 48 \<le> n \<and> n \<le> 57)"

definition nat_of_digits :: "string \<Rightarrow> nat" where
  "nat_of_digits ds = foldl (\<lambda>n c. 10 * n + (of_char c - 48)) 0 ds"

text \<open>\<^verbatim>\<open>key.match(/^([^\[\]]+)\[(\d+)]$/)\<close>: the base key and the index.\<close>

definition indexedKey :: "string \<Rightarrow> (string \<times> nat) option" where
  "indexedKey key =
     (let baseKey = takeWhile (\<lambda>c. c \<noteq> CHR ''['' \<and> c \<noteq> CHR '']'') key;
          rest = dropWhile (\<lambda>c. c \<noteq> CHR ''['' \<and> c \<noteq> CHR '']'') key
      in case rest of
           [] \<Rightarrow> None
         | c # cs \<Rightarrow>
             (if baseKey \<noteq> [] \<and> c = CHR ''['' \<and> cs \<noteq> [] \<and> last cs = CHR '']''
                 \<and> butlast cs \<noteq> [] \<and> list_all is_digit (butlast cs)
              then Some (baseKey, nat_of_digits (butlast cs))
              else None))"

text \<open>
  \<open>arr[index] = value\<close>: an index past the end leaves holes, which read as \<open>undefined\<close>;
  an index that is not an array index (\<open>2^32 - 1\<close> and up) sets no element.
\<close>

definition array_set :: "json list \<Rightarrow> nat \<Rightarrow> json \<Rightarrow> json list" where
  "array_set xs i v =
     (if 4294967295 \<le> i then xs
      else if i < length xs then xs[i := v]
      else xs @ replicate (i - length xs) JUndefined @ [v])"

text \<open>
  \<open>result[key] = value\<close> on the object under construction. A new property whose name is
  an array index (a canonical decimal below \<open>2^32 - 1\<close>) is enumerated among the other
  such names in ascending order and before every other name; any other new name comes
  last. The key \<open>__proto__\<close> names no property of its own: assigning to it gives the
  object no key, and such keys are dropped.
\<close>

definition arrayIndex :: "string \<Rightarrow> nat option" where
  "arrayIndex key =
     (if key \<noteq> [] \<and> list_all is_digit key \<and> (key = ''0'' \<or> hd key \<noteq> CHR ''0'')
         \<and> nat_of_digits key < 4294967295
      then Some (nat_of_digits key) else None)"

fun own_insert :: "(string \<times> 'v) list \<Rightarrow> nat \<Rightarrow> string \<Rightarrow> 'v \<Rightarrow> (string \<times> 'v) list" where
  "own_insert [] n k v = [(k, v)]"
| "own_insert ((k', v') # kvs) n k v =
     (case arrayIndex k' of
        Some m \<Rightarrow> (if m < n then (k', v') # own_insert kvs n k v else (k, v) # (k', v') # kvs)
      | None \<Rightarrow> (k, v) # (k', v') # kvs)"

definition own_set :: "(string \<times> 'v) list \<Rightarrow> string \<Rightarrow> 'v \<Rightarrow> (string \<times> 'v) list" where
  "own_set kvs k v =
     (if k = ''__proto__'' then kvs
      else if k \<in> fst ` set kvs then map (\<lambda>(k', v'). if k' = k then (k', v) else (k', v')) kvs
      else (case arrayIndex k of Some n \<Rightarrow> own_insert kvs n k v | None \<Rightarrow> kvs @ [(k, v)]))"

fun normalizeEntries :: "(string \<times> json) list \<Rightarrow> (string \<times> json) list \<Rightarrow> (string \<times> json) list" where
  "normalizeEntries [] result = result"
| "normalizeEntries ((key, v) # input) result =
     (case indexedKey key of
        Some (baseKey, index) \<Rightarrow>
          (let arr = (case map_of result baseKey of Some (JArr xs) \<Rightarrow> xs | _ \<Rightarrow> [])
           in normalizeEntries input (own_set result baseKey (JArr (array_set arr index v))))
      | None \<Rightarrow> normalizeEntries input (own_set result key v))"

definition normalizeIndexedParams :: "json \<Rightarrow> json" where
  "normalizeIndexedParams input =
     JObj (map (\<lambda>(key, v). (key, case v of JArr xs \<Rightarrow> JArr (filter (\<lambda>x. x \<noteq> JUndefined) xs) | _ \<Rightarrow> v))
             (normalizeEntries (props input) []))"

definition getParamNames :: "'e ParserEnv_scheme \<Rightarrow> string list \<Rightarrow> string \<Rightarrow> string list" where
  "getParamNames env paramNames type' = filter (\<lambda>p. list_ex (\<lambda>m. m = p) (paramNamesMap env type')) paramNames"

definition getParamValues :: "json \<Rightarrow> (json \<Rightarrow> error + 'a) \<Rightarrow> error + 'a list" where
  "getParamValues v parser =
     (if isStringFull v then andThen (parser v) (\<lambda>x. Inr [x])
      else if isArrayFull v then mapE parser (elements v)
      else Inr [])"

fun parseQueryParamLoop :: "json \<Rightarrow> (json \<Rightarrow> error + 'a) \<Rightarrow> string list \<Rightarrow> 'a list \<Rightarrow> error + 'a list" where
  "parseQueryParamLoop query parser [] a = Inr a"
| "parseQueryParamLoop query parser (name # names) a =
     andThen (getParamValues (obj_get query name) parser)
       (\<lambda>vs. parseQueryParamLoop query parser names (a @ vs))"

definition parseQueryParam ::
  "'e ParserEnv_scheme \<Rightarrow> json \<Rightarrow> string list \<Rightarrow> string \<Rightarrow> (json \<Rightarrow> error + 'a) \<Rightarrow> error + 'a list" where
  "parseQueryParam env query paramNames type' parser =
     (let param = getParamNames env paramNames type' in
      if param \<noteq> [] then parseQueryParamLoop query parser param [] else Inr [])"

definition parseSearchQueryParam :: "'e ParserEnv_scheme \<Rightarrow> json \<Rightarrow> error + SCondition" where
  "parseSearchQueryParam env d =
     (if isNil d then Inr JUndefined
      else (case JSON_parse env (js_string d) of
              None \<Rightarrow> Inl (RequestQueryException ''Invalid search param. JSON expected'')
            | Some data' \<Rightarrow>
                (if \<not> isObject data' then Inl (RequestQueryException ''Invalid search param. JSON expected'')
                 else Inr data')))"

text \<open>\<open>xs[0]\<close> of a list of parsed values: \<open>undefined\<close> when there is none.\<close>

fun first :: "'a list \<Rightarrow> 'a option" where
  "first [] = None"
| "first (x # xs) = Some x"

definition parseQuery ::
  "'e ParserEnv_scheme \<Rightarrow> ParsedRequestParams \<Rightarrow> json \<Rightarrow> CustomOperators \<Rightarrow> error + ParsedRequestParams" where
  "parseQuery env this query customOperators =
     (if isObject query then
        (let normalizedQuery = normalizeIndexedParams query;
             paramNames = objKeys normalizedQuery
         in if hasLength paramNames then
              (let searchData = obj_get normalizedQuery
                     (case getParamNames env paramNames ''search'' of [] \<Rightarrow> ''undefined'' | n # _ \<Rightarrow> n)
               in
               andThen (parseSearchQueryParam env searchData) (\<lambda>search.
               andThen (if isNil search
                        then andThen (parseQueryParam env normalizedQuery paramNames ''filter''
                                        (conditionParser env ''filter'' customOperators)) (\<lambda>f.
                             andThen (parseQueryParam env normalizedQuery paramNames ''or''
                                        (conditionParser env ''or'' customOperators)) (\<lambda>or'.
                             Inr (f, or')))
                        else Inr (pfilter this, por this)) (\<lambda>(f, or').
               andThen (parseQueryParam env normalizedQuery paramNames ''fields'' (fieldsParser env)) (\<lambda>fs.
               andThen (parseQueryParam env normalizedQuery paramNames ''join'' (joinParser env)) (\<lambda>js.
               andThen (parseQueryParam env normalizedQuery paramNames ''sort'' (sortParser env)) (\<lambda>ss.
               andThen (parseQueryParam env normalizedQuery paramNames ''limit'' (numericParser env ''limit'')) (\<lambda>ls.
               andThen (parseQueryParam env normalizedQuery paramNames ''offset'' (numericParser env ''offset'')) (\<lambda>os.
               andThen (parseQueryParam env normalizedQuery paramNames ''page'' (numericParser env ''page'')) (\<lambda>ps.
               andThen (parseQueryParam env normalizedQuery paramNames ''cache'' (numericParser env ''cache'')) (\<lambda>cs.
               andThen (parseQueryParam env normalizedQuery paramNames ''includeDeleted''
                          (numericParser env ''includeDeleted'')) (\<lambda>ds.
               Inr (this\<lparr>psearch := search, pfilter := f, por := or',
                          pfields := (case first fs of Some (x # xs) \<Rightarrow> x # xs | _ \<Rightarrow> []),
                          pjoin := js, psort := ss, plimit := first ls, poffset := first os,
                          ppage := first ps, pcache := first cs, pincludeDeleted := first ds,
                          pextra := parseExtraFromQueryParam env normalizedQuery\<rparr>))))))))))))
            else Inr this)
      else Inr this)"


text \<open>
  \<open>paramParser\<close>: the filter of one route parameter, or nothing for a disabled one. Reading
  the option of a name that has none fails as reading a property of \<open>undefined\<close> does;
  an inherited name reads as a member with no \<open>disabled\<close>, \<open>type\<close> or \<open>field\<close>, and the
  filter is keyed by \<open>undefined\<close>.
\<close>

definition paramParser ::
  "'e ParserEnv_scheme \<Rightarrow> ParamsOptions \<Rightarrow> json \<Rightarrow> string \<Rightarrow> error + QueryFilter option" where
  "paramParser env paramsOptions params' name =
     (case validateParamOption env paramsOptions name of
        Some e \<Rightarrow> Inl e
      | None \<Rightarrow>
          (case map_of paramsOptions name of
             None \<Rightarrow>
               (if name \<in> set objectPrototype
                then Inr (Some \<lparr>field = ''undefined'', operator = ''$eq'', qvalue = obj_get params' name\<rparr>)
                else Inl (TypeError (''Cannot read properties of undefined (reading ''
                                      @ [CHR 0x27] @ ''disabled'' @ [CHR 0x27] @ '')'')))
           | Some option' \<Rightarrow>
               (if po_disabled option' then Inr None
                else
                  (let v = obj_get params' name in
                   if po_type option' = ''number'' then
                     (case validateNumeric env (parseValue env v) (''param '' @ name) of
                        Some e \<Rightarrow> Inl e
                      | None \<Rightarrow> Inr (Some \<lparr>field = po_field option', operator = ''$eq'', qvalue = parseValue env v\<rparr>))
                   else if po_type option' = ''uuid'' then
                     (case validateUUID env v name of
                        Some e \<Rightarrow> Inl e
                      | None \<Rightarrow> Inr (Some \<lparr>field = po_field option', operator = ''$eq'', qvalue = v\<rparr>))
                   else Inr (Some \<lparr>field = po_field option', operator = ''$eq'', qvalue = v\<rparr>)))))"

definition parseParams ::
  "'e ParserEnv_scheme \<Rightarrow> ParsedRequestParams \<Rightarrow> json \<Rightarrow> ParamsOptions \<Rightarrow> error + ParsedRequestParams" where
  "parseParams env this params' options =
     (if isObject params' then
        (let paramNames = objKeys params' in
         if hasLength paramNames then
           andThen (mapE (paramParser env options params') paramNames)
             (\<lambda>fs. Inr (this\<lparr>paramsFilter := List.map_filter id fs\<rparr>))
         else Inr this)
      else Inr this)"

text \<open>
  \<open>convertFilterToSearch\<close>. The table of empty-value operators is keyed \<open>isnull\<close> and
  \<open>notnull\<close>, without the \<open>$\<close>.
\<close>

definition convertFilterToSearch :: "QueryFilter \<Rightarrow> SCondition" where
  "convertFilterToSearch f =
     JObj [(field f,
            JObj [(operator f,
                   if operator f = ''isnull'' \<or> operator f = ''notnull'' then JBool True else qvalue f)])]"

section \<open>Request interceptor\<close>

datatype CrudActions = ReadAll | ReadOne | CreateOne | CreateMany | UpdateOne | ReplaceOne | DeleteOne | RecoverOne

text \<open>The authorization rule of a route: each hook is a function of the user or the request.\<close>

record AuthOptions =
  property :: "string option"
  auth_filter :: "(json \<Rightarrow> json) option"
  auth_or :: "(json \<Rightarrow> json) option"
  auth_persist :: "(json \<Rightarrow> json) option"
  auth_classTransformOptions :: "(json \<Rightarrow> json) option"
  auth_groups :: "(json \<Rightarrow> json) option"

record MergedCrudOptions =
  co_query :: QueryOptions
  co_routes :: json
  co_params :: ParamsOptions
  co_operators :: CustomOperators
  co_auth :: "AuthOptions option"

record CrudRequestOptions =
  o_query :: QueryOptions
  o_routes :: json
  o_params :: ParamsOptions
  o_operators :: CustomOperators

record CrudRequest =
  cr_parsed :: ParsedRequestParams
  cr_options :: CrudRequestOptions
  cr_auth :: json

text \<open>What \<open>getAuth\<close> returns; a field that was not set reads as \<open>undefined\<close>.\<close>

record Auth =
  a_filter :: json
  a_or :: json
  a_auth :: json

definition getCrudRequest :: "ParsedRequestParams \<Rightarrow> MergedCrudOptions \<Rightarrow> json \<Rightarrow> CrudRequest" where
  "getCrudRequest parser crudOptions auth' =
     \<lparr>cr_parsed = parser,
      cr_options = \<lparr>o_query = co_query crudOptions, o_routes = co_routes crudOptions,
                 o_params = co_params crudOptions, o_operators = co_operators crudOptions\<rparr>,
      cr_auth = auth'\<rparr>"

definition getParamsSearch ::
  "'e ParserEnv_scheme \<Rightarrow> ParsedRequestParams \<Rightarrow> MergedCrudOptions \<Rightarrow> json
     \<Rightarrow> error + SCondition list \<times> ParsedRequestParams" where
  "getParamsSearch env parser crudOptions params' =
     (if truthy params' then
        andThen (parseParams env parser params' (co_params crudOptions))
          (\<lambda>parser'. Inr (if paramsFilter parser' \<noteq> [] then map convertFilterToSearch (paramsFilter parser') else [],
                          parser'))
      else Inr ([], parser))"

text \<open>The route's own filter as a list of conditions, when it is not a function.\<close>

fun optionsFilter :: "QueryFilterOption \<Rightarrow> SCondition list" where
  "optionsFilter (FilterArray (f # fs)) = map convertFilterToSearch (f # fs)"
| "optionsFilter (FilterArray []) = [JArr []]"
| "optionsFilter (FilterCondition c) = [if truthy c then c else JObj []]"
| "optionsFilter _ = [JObj []]"

definition getSearch ::
  "'e ParserEnv_scheme \<Rightarrow> ParsedRequestParams \<Rightarrow> MergedCrudOptions \<Rightarrow> CrudActions \<Rightarrow> json
     \<Rightarrow> error + SCondition list \<times> ParsedRequestParams" where
  "getSearch env parser0 crudOptions action' params' =
     andThen (getParamsSearch env parser0 crudOptions params') (\<lambda>(paramsSearch, parser).
       (case qfilter (co_query crudOptions) of
          FilterFunction f \<Rightarrow>
            (let filterCond = (if truthy (f (psearch parser) (action' = ReadAll))
                               then f (psearch parser) (action' = ReadAll) else JObj [])
             in Inr (paramsSearch @ [filterCond], parser))
        | other \<Rightarrow>
            (let search =
               (if truthy (psearch parser) then [psearch parser]
                else if hasLength (pfilter parser) \<and> hasLength (por parser) then
                  (if length (pfilter parser) = 1 \<and> length (por parser) = 1
                   then [JObj [(''$or'', JArr [convertFilterToSearch (pfilter parser ! 0),
                                              convertFilterToSearch (por parser ! 0)])]]
                   else [JObj [(''$or'', JArr [JObj [(''$and'', JArr (map convertFilterToSearch (pfilter parser)))],
                                              JObj [(''$and'', JArr (map convertFilterToSearch (por parser)))]])]])
                else if hasLength (pfilter parser) then map convertFilterToSearch (pfilter parser)
                else if hasLength (por parser) then
                  (if length (por parser) = 1 then [convertFilterToSearch (por parser ! 0)]
                   else [JObj [(''$or'', JArr (map convertFilterToSearch (por parser)))]])
                else [])
             in Inr (paramsSearch @ optionsFilter other @ search, parser))))"

text \<open>\<open>Object.assign(target, source)\<close> on property lists.\<close>

definition object_assign :: "(string \<times> json) list \<Rightarrow> json \<Rightarrow> (string \<times> json) list" where
  "object_assign target source = fold (\<lambda>(k, v) m. obj_set m k v) (props source) target"

text \<open>
  \<open>getAuth\<close>. The request is the object \<open>req\<close>; the result comes with the parser as changed
  and with the names of the hooks that were invoked, in order: each hook is listed under
  the condition under which the code calls it.
\<close>

definition userOrRequest :: "AuthOptions \<Rightarrow> json \<Rightarrow> json" where
  "userOrRequest ao req = (if full (property ao) then obj_get req (elems (property ao)) else req)"

definition getAuth ::
  "ParsedRequestParams \<Rightarrow> MergedCrudOptions \<Rightarrow> json \<Rightarrow> Auth \<times> ParsedRequestParams \<times> string list" where
  "getAuth parser crudOptions req =
     (case co_auth crudOptions of
        None \<Rightarrow> (\<lparr>a_filter = JUndefined, a_or = JUndefined, a_auth = JUndefined\<rparr>, parser, [])
      | Some ao \<Rightarrow>
          (let u = userOrRequest ao req;
               authAuth =
                 (if full (property ao) \<and> truthy (obj_get req (elems (property ao))) then
                    (if isObject (obj_get req (elems (property ao))) then
                       (if 0 < length (objKeys (obj_get req (elems (property ao))))
                        then obj_get req (elems (property ao)) else JUndefined)
                     else obj_get req (elems (property ao)))
                  else JUndefined);
               authOr = (case auth_or ao of Some f \<Rightarrow> f u | None \<Rightarrow> JUndefined);
               authFilter =
                 (case auth_filter ao of
                    Some f \<Rightarrow> (if \<not> truthy authOr then (if truthy (f u) then f u else JObj []) else JUndefined)
                  | None \<Rightarrow> JUndefined);
               parser1 =
                 (case auth_persist ao of
                    Some f \<Rightarrow>
                      parser\<lparr>authPersist :=
                        (if isUndefined (f u) then JObj [] else if truthy (f u) then f u else JObj [])\<rparr>
                  | None \<Rightarrow> parser);
               options1 = (case auth_classTransformOptions ao of Some f \<Rightarrow> object_assign [] (f u) | None \<Rightarrow> []);
               options2 = (case auth_groups ao of Some f \<Rightarrow> obj_set options1 ''groups'' (f u) | None \<Rightarrow> options1);
               calls =
                 (case auth_or ao of Some f \<Rightarrow> [''or''] | None \<Rightarrow> [])
                 @ (case auth_filter ao of
                      Some f \<Rightarrow> (if \<not> truthy authOr then [''filter''] else [])
                    | None \<Rightarrow> [])
                 @ (case auth_persist ao of Some f \<Rightarrow> [''persist''] | None \<Rightarrow> [])
                 @ (case auth_classTransformOptions ao of Some f \<Rightarrow> [''classTransformOptions''] | None \<Rightarrow> [])
                 @ (case auth_groups ao of Some f \<Rightarrow> [''groups''] | None \<Rightarrow> [])
           in (\<lparr>a_filter = authFilter, a_or = authOr, a_auth = authAuth\<rparr>,
               parser1\<lparr>classTransformOptions := JObj options2\<rparr>, calls)))"

text \<open>
  What \<open>getCrudInfo\<close> gives for the handler (the base interceptor is not among the
  sources): whether controller options are present, the merged options and the action.
\<close>

record CrudInfo =
  ci_ctrlOptions :: bool
  ci_crudOptions :: MergedCrudOptions
  ci_action :: CrudActions

text \<open>
  \<open>intercept\<close>. \<open>attached\<close> is the request's parsed CRUD request, if an earlier interceptor
  attached one. The result is the request to attach (or the one already there) with the
  auth hooks invoked; a parser exception becomes a bad request.
\<close>

definition intercept ::
  "'e ParserEnv_scheme \<Rightarrow> CrudInfo \<Rightarrow> json \<Rightarrow> CrudRequest option \<Rightarrow> error + CrudRequest \<times> string list" where
  "intercept env info req attached =
     (case attached of
        Some r \<Rightarrow> Inr (r, [])
      | None \<Rightarrow>
          (case
             andThen (parseQuery env create (obj_get req ''query'') (co_operators (ci_crudOptions info)))
               (\<lambda>parser.
                  if ci_ctrlOptions info then
                    andThen (getSearch env parser (ci_crudOptions info) (ci_action info) (obj_get req ''params''))
                      (\<lambda>(search, parser1).
                         (case getAuth parser1 (ci_crudOptions info) req of
                            (auth', parser2, calls) \<Rightarrow>
                              Inr (getCrudRequest
                                     (parser2\<lparr>psearch :=
                                        (if truthy (a_or auth')
                                         then JObj [(''$or'', JArr [a_or auth', JObj [(''$and'', JArr search)]])]
                                         else JObj [(''$and'', JArr (a_filter auth' # search))])\<rparr>)
                                     (ci_crudOptions info) (a_auth auth'),
                                   calls)))
                  else
                    andThen (getSearch env parser (ci_crudOptions info) (ci_action info) JUndefined)
                      (\<lambda>(search, parser1).
                         Inr (getCrudRequest (parser1\<lparr>psearch := JObj [(''$and'', JArr search)]\<rparr>)
                                (ci_crudOptions info) JUndefined,
                              [])))
           of
             Inl (RequestQueryException msg) \<Rightarrow> Inl (BadRequestException msg)
           | Inl e \<Rightarrow> Inl e
           | Inr r \<Rightarrow> Inr r))"


section \<open>Reading many\<close>

text \<open>
  Modelled from the spec: \<open>getTake\<close> and \<open>getSkip\<close> of the abstract \<open>CrudService\<close>, which
  is not among the sources. The spec speaks of the effective limit and the effective page:
  the limit is the client's, or the route's when the client gives none; the rows of page
  \<open>p\<close> start after \<open>limit * (p - 1)\<close> rows (the spec's scenario: limit 10 and page 2 give
  rows 11 to 20), and without a page the client's offset applies.
\<close>

definition getTake :: "'p ParsedRequestParams_scheme \<Rightarrow> 'q QueryOptions_scheme \<Rightarrow> nat option" where
  "getTake query options = (case plimit query of Some l \<Rightarrow> Some l | None \<Rightarrow> qlimit options)"

definition getSkip :: "'p ParsedRequestParams_scheme \<Rightarrow> nat option \<Rightarrow> nat option" where
  "getSkip query take' =
     (case ppage query of
        Some p \<Rightarrow>
          (case take' of
             Some t \<Rightarrow> (if 0 < p \<and> 0 < t then Some (t * (p - 1)) else poffset query)
           | None \<Rightarrow> poffset query)
      | None \<Rightarrow> poffset query)"

text \<open>
  Modelled from the spec: \<open>decidePagination\<close> of the abstract \<open>CrudService\<close>, which is not
  among the sources. Pagination is active when the merged query options indicate always
  paginate or the client supplied page or limit.
\<close>

definition decidePagination :: "'p ParsedRequestParams_scheme \<Rightarrow> CrudRequestOptions \<Rightarrow> bool" where
  "decidePagination query options =
     (if alwaysPaginate (o_query options) then True
      else (case ppage query of
              Some p \<Rightarrow> True
            | None \<Rightarrow> (case plimit query of Some l \<Rightarrow> True | None \<Rightarrow> False)))"

text \<open>
  Modelled from the spec: \<open>createPageInfo\<close> of the abstract \<open>CrudService\<close>, which is not
  among the sources. The envelope holds the rows, their number, the total, the page the
  offset falls on and \<open>pageCount = ceil(total / limit)\<close>.
\<close>

record 'r GetManyDefaultResponse =
  pi_data :: "'r list"
  pi_count :: nat
  pi_total :: nat
  pi_page :: nat
  pi_pageCount :: nat

definition createPageInfo :: "'r list \<Rightarrow> nat \<Rightarrow> nat \<Rightarrow> nat \<Rightarrow> 'r GetManyDefaultResponse" where
  "createPageInfo data' total' limit offset =
     \<lparr>pi_data = data', pi_count = length data', pi_total = total',
      pi_page = offset div limit + 1, pi_pageCount = (total' + limit - 1) div limit\<rparr>"

text \<open>
  \<open>createBuilder\<close>, on the builder \<open>fresh\<close> that \<open>repo.createQueryBuilder\<close> returns. When
  a step throws the request fails, and the state the service is left in is not part of
  the result. \<open>isFinite\<close> holds of every take and skip, of \<open>null\<close> too, so both are
  always set.
\<close>

definition createBuilder ::
  "Service \<Rightarrow> ServiceState \<Rightarrow> 'b SelectQueryBuilder_scheme \<Rightarrow> ParsedRequestParams \<Rightarrow> CrudRequestOptions
     \<Rightarrow> bool \<Rightarrow> bool \<Rightarrow> error + ServiceState \<times> 'b SelectQueryBuilder_scheme" where
  "createBuilder svc ss fresh parsed options many withDeleted =
     (let builder1 = fresh\<lparr>selects := getSelect svc parsed (o_query options)\<rparr>;
          builder2 = (if entityHasDeleteColumn svc \<and> softDelete (o_query options) then
                        (if pincludeDeleted parsed = Some 1 \<or> withDeleted
                         then builder1\<lparr>qb_withDeleted := True\<rparr> else builder1)
                      else builder1)
      in
      andThen (setSearchCondition svc builder2 0 (psearch parsed) (o_operators options) ''$and'') (\<lambda>builder3.
      andThen (setJoins svc parsed (qjoin (o_query options)) (ss, builder3)) (\<lambda>(ss4, builder4).
      andThen (if many then
                 (case getSort svc (lastIndex ss4) parsed (o_query options) of
                    (Inl e, li) \<Rightarrow> Inl e
                  | (Inr sort', li) \<Rightarrow>
                      (let take' = getTake parsed (o_query options);
                           skip = getSkip parsed take'
                       in Inr (ss4\<lparr>lastIndex := li\<rparr>,
                               builder4\<lparr>orderBys := sort', qb_take := take', qb_skip := skip\<rparr>)))
               else Inr (ss4, builder4)) (\<lambda>(ss5, builder5).
      Inr (ss5,
           case qcache (o_query options) of
             Some c \<Rightarrow> (if c \<noteq> 0 \<and> pcache parsed \<noteq> Some 0 then builder5\<lparr>qb_cache := Some c\<rparr> else builder5)
           | None \<Rightarrow> builder5)))))"

text \<open>
  Running the builder is the ORM's part. \<open>rows\<close> are the entities its select, where
  clauses, joins and order give; \<open>getMany\<close> skips and takes among them, a take of \<open>0\<close>
  taking all, and \<open>getManyAndCount\<close> adds their number.
\<close>

definition builderGetMany :: "'b SelectQueryBuilder_scheme \<Rightarrow> 'r list \<Rightarrow> 'r list" where
  "builderGetMany builder rows =
     (let skipped = drop (case qb_skip builder of Some s \<Rightarrow> s | None \<Rightarrow> 0) rows
      in case qb_take builder of
           Some t \<Rightarrow> (if t \<noteq> 0 then take t skipped else skipped)
         | None \<Rightarrow> skipped)"

definition getManyAndCount :: "'b SelectQueryBuilder_scheme \<Rightarrow> 'r list \<Rightarrow> 'r list \<times> nat" where
  "getManyAndCount builder rows = (builderGetMany builder rows, length rows)"

datatype 'r GetManyResponse =
    Paged "'r GetManyDefaultResponse"
  | Rows "'r list"

definition doGetMany ::
  "'b SelectQueryBuilder_scheme \<Rightarrow> ParsedRequestParams \<Rightarrow> CrudRequestOptions \<Rightarrow> 'r list \<Rightarrow> 'r GetManyResponse" where
  "doGetMany builder query options rows =
     (if decidePagination query options then
        (case getManyAndCount builder rows of
           (data', total') \<Rightarrow>
             (let limit = qb_take builder;
                  offset = qb_skip builder
              in Paged (createPageInfo data' total'
                          (case limit of Some l \<Rightarrow> (if l \<noteq> 0 then l else total') | None \<Rightarrow> total')
                          (case offset of Some s \<Rightarrow> s | None \<Rightarrow> 0))))
      else Rows (builderGetMany builder rows))"

text \<open>
  \<open>getMany\<close>. \<open>db\<close> gives the rows a builder matches; what it matches does not depend on
  the take and the skip.
\<close>

definition matching :: "('b SelectQueryBuilder_scheme \<Rightarrow> 'r list) \<Rightarrow> 'b SelectQueryBuilder_scheme \<Rightarrow> 'r list" where
  "matching db builder = db (builder\<lparr>qb_take := None, qb_skip := None\<rparr>)"

definition getMany ::
  "Service \<Rightarrow> ServiceState \<Rightarrow> 'b SelectQueryBuilder_scheme \<Rightarrow> CrudRequest
     \<Rightarrow> ('b SelectQueryBuilder_scheme \<Rightarrow> 'r list) \<Rightarrow> error + 'r GetManyResponse" where
  "getMany svc ss fresh req db =
     andThen (createBuilder svc ss fresh (cr_parsed req) (cr_options req) True False)
       (\<lambda>(ss', builder). Inr (doGetMany builder (cr_parsed req) (cr_options req) (matching db builder)))"


section \<open>Names used in the statements\<close>

text \<open>
  The array-class operators and the operators \<open>mapOperatorsToQuery\<close> knows by name (any
  other is looked up among the custom operators); the where clauses of the request's own
  builder with the bound parameters; the error of \<open>checkFilterIsArray\<close>.
\<close>

definition arrayOperators :: "string list" where
  "arrayOperators = [''$in'', ''$notin'', ''$inL'', ''$notinL'', ''$between'', ''$contArr'', ''$intersectsArr'']"

definition builtinOperators :: "string list" where
  "builtinOperators =
     [''$eq'', ''$ne'', ''$gt'', ''$lt'', ''$gte'', ''$lte'', ''$starts'', ''$ends'', ''$cont'', ''$excl'',
      ''$in'', ''$notin'', ''$isnull'', ''$notnull'', ''$between'', ''$eqL'', ''$neL'', ''$startsL'',
      ''$endsL'', ''$contL'', ''$exclL'', ''$inL'', ''$notinL'', ''$contArr'', ''$intersectsArr'']"

definition compiled :: "error + 'b Builders_scheme \<Rightarrow> error + WhereClause list \<times> (string \<times> json) list" where
  "compiled r = (case r of Inl e \<Rightarrow> Inl e | Inr st \<Rightarrow> Inr (wheres st ! 0, parameters st))"

definition invalidColumn :: "string \<Rightarrow> error" where
  "invalidColumn fld = BadRequestException (''Invalid column '' @ quote @ fld @ quote @ '' value'')"

definition finalSearch :: "error + CrudRequest \<times> string list \<Rightarrow> error + SCondition" where
  "finalSearch r = (case r of Inl e \<Rightarrow> Inl e | Inr (cr, calls) \<Rightarrow> Inr (psearch (cr_parsed cr)))"

definition hooksInvoked :: "error + CrudRequest \<times> string list \<Rightarrow> string list" where
  "hooksInvoked r = (case r of Inl e \<Rightarrow> [] | Inr (cr, calls) \<Rightarrow> calls)"

text \<open>The client's part of the search, as \<open>getSearch\<close> derives it.\<close>

definition clientSearch :: "ParsedRequestParams \<Rightarrow> SCondition list" where
  "clientSearch parser =
     (if truthy (psearch parser) then [psearch parser]
      else if pfilter parser \<noteq> [] \<and> por parser \<noteq> [] then
        (if length (pfilter parser) = 1 \<and> length (por parser) = 1
         then [JObj [(''$or'', JArr [convertFilterToSearch (pfilter parser ! 0),
                                    convertFilterToSearch (por parser ! 0)])]]
         else [JObj [(''$or'', JArr [JObj [(''$and'', JArr (map convertFilterToSearch (pfilter parser)))],
                                    JObj [(''$and'', JArr (map convertFilterToSearch (por parser)))]])]])
      else if pfilter parser \<noteq> [] then map convertFilterToSearch (pfilter parser)
      else if por parser \<noteq> [] then
        (if length (por parser) = 1 then [convertFilterToSearch (por parser ! 0)]
         else [JObj [(''$or'', JArr (map convertFilterToSearch (por parser)))]])
      else [])"

text \<open>What follows the params search in the list \<open>getSearch\<close> returns.\<close>

definition routeAndClientSearch :: "MergedCrudOptions \<Rightarrow> CrudActions \<Rightarrow> ParsedRequestParams \<Rightarrow> SCondition list" where
  "routeAndClientSearch crudOptions action' parser =
     (case qfilter (co_query crudOptions) of
        FilterFunction f \<Rightarrow>
          [if truthy (f (psearch parser) (action' = ReadAll)) then f (psearch parser) (action' = ReadAll) else JObj []]
      | other \<Rightarrow> optionsFilter other @ clientSearch parser)"

section \<open>Example data\<close>

text \<open>A service over a \<open>Company\<close> entity, an empty set of builders, and a request with no parameter.\<close>

definition companyService :: Service where
  "companyService =
     \<lparr>alias' = ''Company'', entityColumns = [''id'', ''name'', ''domain'', ''secret''],
      entityPrimaryColumns = [''id''], dbName = ''postgres'', entityHasDeleteColumn = False,
      entityColumnsHash = [(''id'', ''id''), (''name'', ''name''), (''domain'', ''domain''), (''secret'', ''secret'')],
      ownColumns = [(''id'', ''int''), (''name'', ''text''), (''domain'', ''text''), (''secret'', ''text'')],
      relations = []\<rparr>"

definition emptyBuilders :: Builders where
  "emptyBuilders = \<lparr>wheres = [[]], parameters = [], hrtime = (\<lambda>n. (7, n)), hrtime_reads = 0\<rparr>"

definition noParams :: ParsedRequestParams where
  "noParams =
     \<lparr>pfields = [], paramsFilter = [], authPersist = JUndefined, classTransformOptions = JUndefined,
      psearch = JUndefined, pfilter = [], por = [], pjoin = [], psort = [], plimit = None,
      poffset = None, ppage = None, pcache = None, pincludeDeleted = None, pextra = JUndefined\<rparr>"

definition noOptions :: QueryOptions where
  "noOptions =
     \<lparr>allow = None, exclude = None, persist = None, qfilter = FilterAbsent, qjoin = [], qsort = [],
      qlimit = None, maxLimit = None, qcache = None, alwaysPaginate = False, softDelete = False\<rparr>"

definition tildeOperator :: CustomOperator where
  "tildeOperator = \<lparr>isArrayOp = True, cquery = (\<lambda>f p. Some (f @ '' ~ :'' @ p)), cparams = None\<rparr>"

definition injectedField :: string where
  "injectedField = ''users.name'' @ quote @ ''--''"

definition injectedSort :: QuerySort where
  "injectedSort = \<lparr>sort_field = ''name'' @ quote @ ''--'', order = ''ASC''\<rparr>"

definition emptyState :: ServiceState where
  "emptyState = \<lparr>entityRelationsHash = [], lastIndex = [0, 0, 0, 0], console = []\<rparr>"

definition emptyQuery :: SelectQueryBuilder where
  "emptyQuery =
     \<lparr>wheres = [[]], parameters = [], hrtime = (\<lambda>n. (7, n)), hrtime_reads = 0, selects = [], joins = [],
      orderBys = [], qb_take = None, qb_skip = None, qb_cache = None, qb_withDeleted = False\<rparr>"

definition plainJoin :: JoinOption where
  "plainJoin = \<lparr>allow = None, exclude = None, persist = None, jalias = None, required = False,
                 eager = False, jselect = None\<rparr>"

definition ghostJoin :: QueryJoin where
  "ghostJoin = \<lparr>join_field = ''ghost'', join_select = None, on = None\<rparr>"

definition toStringJoin :: QueryJoin where
  "toStringJoin = \<lparr>join_field = ''toString'', join_select = None, on = None\<rparr>"

text \<open>
  A parser environment whose \<open>JSON.parse\<close> knows four texts, the last being
  \<^verbatim>\<open>{"name":1}\<close>, and whose entry parsers accept nothing.
\<close>

definition nameSearchText :: string where
  "nameSearchText = ''{'' @ [CHR 0x22] @ ''name'' @ [CHR 0x22] @ '':1}''"

definition tableEnv :: ParserEnv where
  "tableEnv =
     \<lparr>paramNamesMap = (\<lambda>t. if t = ''search'' then [''s''] else [t]),
      JSON_parse = (\<lambda>s. if s = ''{}'' then Some (JObj [])
                         else if s = ''[1]'' then Some (JArr [JNum 1])
                         else if s = ''1'' then Some (JNum 1)
                         else if s = nameSearchText then Some (JObj [(''name'', JNum 1)]) else None),
      parseValue = (\<lambda>v. v),
      conditionParser = (\<lambda>c ops d. Inl (RequestQueryException (''Invalid '' @ c @ '' value''))),
      fieldsParser = (\<lambda>d. Inr []),
      joinParser = (\<lambda>d. Inl (RequestQueryException ''Invalid join'')),
      sortParser = (\<lambda>d. Inl (RequestQueryException ''Invalid sort'')),
      numericParser = (\<lambda>n d. Inl (RequestQueryException (''Invalid '' @ n))),
      parseExtraFromQueryParam = (\<lambda>q. JUndefined),
      validateParamOption = (\<lambda>os n. None),
      validateNumeric = (\<lambda>v n. None),
      validateUUID = (\<lambda>v n. None)\<rparr>"

definition statusFilter :: "string \<Rightarrow> QueryFilter" where
  "statusFilter v = \<lparr>field = ''status'', operator = ''$eq'', qvalue = JStr v\<rparr>"

definition plainCrudOptions :: MergedCrudOptions where
  "plainCrudOptions =
     \<lparr>co_query = noOptions, co_routes = JObj [], co_params = [], co_operators = [], co_auth = None\<rparr>"

definition ownerAuth :: AuthOptions where
  "ownerAuth =
     \<lparr>property = None,
      auth_filter = Some (\<lambda>u. JObj [(''owner'', JNum 2)]),
      auth_or = Some (\<lambda>u. JObj [(''id'', JNum 1)]),
      auth_persist = None, auth_classTransformOptions = None, auth_groups = None\<rparr>"

definition ownerInfo :: CrudInfo where
  "ownerInfo = \<lparr>ci_ctrlOptions = True, ci_crudOptions = plainCrudOptions\<lparr>co_auth := Some ownerAuth\<rparr>, ci_action = ReadAll\<rparr>"

text \<open>
  A route whose filter is a function, and a route with one path parameter whose auth rule
  reads the user of the request, with and without an \<open>or\<close> hook.
\<close>

definition tenantFilter :: QueryFilterOption where
  "tenantFilter = FilterFunction (\<lambda>search getMany. JObj [(''tenant'', JNum 1)])"

definition userAuth :: AuthOptions where
  "userAuth =
     \<lparr>property = Some ''user'',
      auth_filter = Some (\<lambda>u. JObj [(''ownerId'', obj_get u ''id'')]),
      auth_or = None,
      auth_persist = None, auth_classTransformOptions = None, auth_groups = None\<rparr>"

definition userOrAuth :: AuthOptions where
  "userOrAuth = userAuth\<lparr>auth_or := Some (\<lambda>u. JObj [(''id'', obj_get u ''id'')])\<rparr>"

definition userInfo :: "AuthOptions option \<Rightarrow> CrudInfo" where
  "userInfo ao =
     \<lparr>ci_ctrlOptions = True,
      ci_crudOptions = plainCrudOptions
        \<lparr>co_params := [(''id'', \<lparr>po_field = ''id'', po_type = ''string'', po_disabled = False\<rparr>)],
         co_auth := ao\<rparr>,
      ci_action = ReadAll\<rparr>"

definition userRequest :: json where
  "userRequest =
     JObj [(''query'', JObj [(''s'', JStr nameSearchText)]),
           (''params'', JObj [(''id'', JStr ''5'')]),
           (''user'', JObj [(''id'', JNum 7)])]"







section \<open>Properties\<close>

lemma set_uniq: "set (uniq xs) = set xs"
  by (simp add: uniq_def)

lemma qualified_inj: "(a @ ''.'' @ x = a @ ''.'' @ y) = (x = y)"
  by simp

lemma set_getSelect:
  "set (getSelect svc query options) =
     (\<lambda>col. alias' svc @ ''.'' @ col) `
       (set (elems (persist options))
        \<union> (if pfields query \<noteq> []
           then {f \<in> set (pfields query). f \<in> set (getAllowedColumns (entityColumns svc) options)}
           else set (getAllowedColumns (entityColumns svc) options))
        \<union> set (entityPrimaryColumns svc))"
proof -
  have p: "set (if full (persist options) then elems (persist options) else [])
             = set (elems (persist options))"
    by (cases "persist options" rule: full.cases) auto
  show ?thesis
    unfolding getSelect_def Let_def set_uniq set_map set_append p
    by (auto simp: list_ex_iff)
qed

text \<open>
  C10. Whatever the client asked for and whatever the allow and exclude lists say, the
  root select list holds every primary-key column and every persist column of the route
  (qualified by the entity alias); a requested field outside the allowed columns (and
  neither persisted nor a primary key) is left out, and the function has no failing
  branch: it always returns a list.
\<close>

theorem getSelect_keeps_primary_and_persist:
  "(\<forall>c \<in> set (entityPrimaryColumns svc) \<union> set (elems (persist options)).
      alias' svc @ ''.'' @ c \<in> set (getSelect svc query options))
   \<and> (\<forall>f \<in> set (pfields query).
        f \<notin> set (getAllowedColumns (entityColumns svc) options)
        \<and> f \<notin> set (entityPrimaryColumns svc) \<and> f \<notin> set (elems (persist options))
        \<longrightarrow> alias' svc @ ''.'' @ f \<notin> set (getSelect svc query options))"
  unfolding set_getSelect by (auto split: if_splits)

theorem getSelect_keeps_primary_and_persist_witness:
  "''Company.id'' \<in> set (getSelect companyService (noParams\<lparr>pfields := [''name'', ''secret'']\<rparr>)
       (noOptions\<lparr>exclude := Some [''secret''], persist := Some [''domain'']\<rparr>))
   \<and> ''Company.domain'' \<in> set (getSelect companyService (noParams\<lparr>pfields := [''name'', ''secret'']\<rparr>)
       (noOptions\<lparr>exclude := Some [''secret''], persist := Some [''domain'']\<rparr>))
   \<and> ''Company.secret'' \<notin> set (getSelect companyService (noParams\<lparr>pfields := [''name'', ''secret'']\<rparr>)
       (noOptions\<lparr>exclude := Some [''secret''], persist := Some [''domain'']\<rparr>))"
  using getSelect_keeps_primary_and_persist
    [of companyService "noOptions\<lparr>exclude := Some [''secret''], persist := Some [''domain'']\<rparr>"
        "noParams\<lparr>pfields := [''name'', ''secret'']\<rparr>"]
  by (simp add: companyService_def noParams_def noOptions_def getAllowedColumns_def)

lemma setParameters_Nil: "setParameters st [] = st"
  by (simp add: setParameters_def)

lemma mapOperatorsToQuery_isnull:
  "mapOperatorsToQuery svc \<lparr>field = fld, operator = ''$isnull'', qvalue = v\<rparr> param customOperators
     = Inr \<lparr>str = getFieldWithAlias svc fld False @ '' IS NULL'', params = []\<rparr>"
  by (simp add: mapOperatorsToQuery_def normalizeOperator_def Let_def)

text \<open>
  C5. A leaf whose value is \<open>null\<close> and that names no operator compiles to the fragment
  \<open>field IS NULL\<close> and binds no parameter: the clause is pushed on the builder with
  the combinator in force, the parameters stay as they were, and no \<open>field = :p\<close>
  fragment is produced. This holds for the leaf on its own and for a null entry of any
  search object, which all go through \<open>setFieldCondition\<close>.
\<close>

theorem null_leaf_compiles_to_is_null:
  "builderSetWhere svc st builder condition fld JNull customOperators ''$eq''
     = Inr (pushWhere (st\<lparr>hrtime_reads := Suc (hrtime_reads st)\<rparr>) builder
             (if condition = ''$and'' then ''and'' else ''or'',
              WStr (getFieldWithAlias svc fld False @ '' IS NULL'')))
   \<and> setFieldCondition svc st builder condition fld JNull customOperators
     = builderSetWhere svc st builder condition fld JNull customOperators ''$eq''
   \<and> setSearchCondition svc st builder (JObj [(fld, JNull)]) customOperators condition
     = builderSetWhere svc st builder condition fld JNull customOperators ''$eq''"
proof -
  have 1: "builderSetWhere svc st builder condition fld JNull customOperators ''$eq''
     = Inr (pushWhere (st\<lparr>hrtime_reads := Suc (hrtime_reads st)\<rparr>) builder
             (if condition = ''$and'' then ''and'' else ''or'',
              WStr (getFieldWithAlias svc fld False @ '' IS NULL'')))"
    by (simp add: builderSetWhere_def Let_def setAndWhere_def setOrWhere_def mapOperatorsToQuery_isnull
        andWhere_def orWhere_def setParameters_Nil)
  have 2: "setFieldCondition svc st builder condition fld JNull customOperators
     = builderSetWhere svc st builder condition fld JNull customOperators ''$eq''"
    by (simp add: setFieldCondition_def)
  have 3: "setSearchCondition svc st builder (JObj [(fld, JNull)]) customOperators condition
     = setFieldCondition svc st builder condition fld JNull customOperators"
    by (subst setSearchCondition.simps) (simp add: objKeys_def obj_get_def)
  show ?thesis using 1 2 3 by simp
qed

theorem null_leaf_compiles_to_is_null_witness:
  "map_sum id (\<lambda>s. (wheres s, parameters s))
     (setSearchCondition companyService emptyBuilders 0 (JObj [(''name'', JNull)]) [] ''$and'')
   = Inr ([[(''and'', WStr ([CHR 0x22] @ ''Company'' @ [CHR 0x22] @ ''.'' @ [CHR 0x22] @ ''name'' @ [CHR 0x22] @ '' IS NULL''))]], [])"
  using null_leaf_compiles_to_is_null [of companyService emptyBuilders 0 "''$and''" "''name''" "[]"]
  by (simp add: companyService_def emptyBuilders_def pushWhere_def getFieldWithAlias_def)

lemma checkFilterIsArray_eq:
  "checkFilterIsArray \<lparr>field = fld, operator = op, qvalue = v\<rparr> w =
     (if isArrayFull v \<and> w \<noteq> Some True then Inr ()
      else Inl (BadRequestException (''Invalid column '' @ quote @ fld @ quote @ '' value'')))"
  by (cases v; cases w) (auto simp: checkFilterIsArray_def throwBadRequestException_def)

lemma length_not_2_array: "isArrayFull v \<Longrightarrow> length_not_2 v = (length (elements v) \<noteq> 2)"
  by (cases v) auto


lemma array_custom:
  "op \<notin> set builtinOperators \<Longrightarrow> normalizeOperator op = op \<Longrightarrow> map_of customOperators op = Some c
   \<Longrightarrow> isArrayOp c \<Longrightarrow> \<not> isArrayFull v \<Longrightarrow>
   mapOperatorsToQuery svc \<lparr>field = fld, operator = op, qvalue = v\<rparr> param customOperators
     = Inl (BadRequestException (''Invalid custom operator '' @ quote @ getFieldWithAlias svc fld False @ quote @ '' query''))"
  by (simp add: mapOperatorsToQuery_def Let_def checkFilterIsArray_eq builtinOperators_def throwBadRequestException_def)

lemma null_any_operator:
  "builderSetWhere svc st builder condition fld JNull customOperators op
     = Inr (pushWhere (st\<lparr>hrtime_reads := Suc (hrtime_reads st)\<rparr>) builder
             (if condition = ''$and'' then ''and'' else ''or'',
              WStr (getFieldWithAlias svc fld False @ '' IS NULL'')))"
  by (simp add: builderSetWhere_def Let_def setAndWhere_def setOrWhere_def mapOperatorsToQuery_isnull
        andWhere_def orWhere_def setParameters_Nil)


lemma map_in:
  "mapOperatorsToQuery svc \<lparr>field = fld, operator = ''$in'', qvalue = v\<rparr> param customOperators =
     (if isArrayFull v
      then Inr \<lparr>str = getFieldWithAlias svc fld False @ '' IN (:...'' @ param @ '')'', params = [(param, v)]\<rparr>
      else Inl (invalidColumn fld))"
  by (simp add: mapOperatorsToQuery_def normalizeOperator_def Let_def checkFilterIsArray_eq invalidColumn_def)

lemma map_notin:
  "mapOperatorsToQuery svc \<lparr>field = fld, operator = ''$notin'', qvalue = v\<rparr> param customOperators =
     (if isArrayFull v
      then Inr \<lparr>str = getFieldWithAlias svc fld False @ '' NOT IN (:...'' @ param @ '')'', params = [(param, v)]\<rparr>
      else Inl (invalidColumn fld))"
  by (simp add: mapOperatorsToQuery_def normalizeOperator_def Let_def checkFilterIsArray_eq invalidColumn_def)

lemma map_inL:
  "mapOperatorsToQuery svc \<lparr>field = fld, operator = ''$inL'', qvalue = v\<rparr> param customOperators =
     (if isArrayFull v
      then Inr \<lparr>str = ''LOWER('' @ getFieldWithAlias svc fld False @ '') IN (:...'' @ param @ '')'', params = [(param, v)]\<rparr>
      else Inl (invalidColumn fld))"
  by (simp add: mapOperatorsToQuery_def normalizeOperator_def Let_def checkFilterIsArray_eq invalidColumn_def)

lemma map_notinL:
  "mapOperatorsToQuery svc \<lparr>field = fld, operator = ''$notinL'', qvalue = v\<rparr> param customOperators =
     (if isArrayFull v
      then Inr \<lparr>str = ''LOWER('' @ getFieldWithAlias svc fld False @ '') NOT IN (:...'' @ param @ '')'', params = [(param, v)]\<rparr>
      else Inl (invalidColumn fld))"
  by (simp add: mapOperatorsToQuery_def normalizeOperator_def Let_def checkFilterIsArray_eq invalidColumn_def)

lemma map_between:
  "\<not> isNil v \<Longrightarrow>
   mapOperatorsToQuery svc \<lparr>field = fld, operator = ''$between'', qvalue = v\<rparr> param customOperators =
     (if isArrayFull v \<and> length (elements v) = 2
      then Inr \<lparr>str = getFieldWithAlias svc fld False @ '' BETWEEN :'' @ param @ ''0 AND :'' @ param @ ''1'',
                params = [(param @ ''0'', js_index v 0), (param @ ''1'', js_index v 1)]\<rparr>
      else Inl (invalidColumn fld))"
  by (auto simp: mapOperatorsToQuery_def normalizeOperator_def Let_def checkFilterIsArray_eq invalidColumn_def
        length_not_2_array)

lemma map_contArr:
  "mapOperatorsToQuery svc \<lparr>field = fld, operator = ''$contArr'', qvalue = v\<rparr> param customOperators =
     (if isArrayFull v
      then (case getColumnType svc fld of
              Inl e \<Rightarrow> Inl e
            | Inr t \<Rightarrow> Inr \<lparr>str = getFieldWithAlias svc fld False @ '' @> ARRAY[:...'' @ param @ '']::'' @ t @ ''[]'',
                           params = [(param, v)]\<rparr>)
      else Inl (invalidColumn fld))"
  by (simp add: mapOperatorsToQuery_def normalizeOperator_def Let_def checkFilterIsArray_eq invalidColumn_def)

lemma map_intersectsArr:
  "mapOperatorsToQuery svc \<lparr>field = fld, operator = ''$intersectsArr'', qvalue = v\<rparr> param customOperators =
     (if isArrayFull v
      then (case getColumnType svc fld of
              Inl e \<Rightarrow> Inl e
            | Inr t \<Rightarrow> Inr \<lparr>str = getFieldWithAlias svc fld False @ '' && ARRAY[:...'' @ param @ '']::'' @ t @ ''[]'',
                           params = [(param, v)]\<rparr>)
      else Inl (invalidColumn fld))"
  by (simp add: mapOperatorsToQuery_def normalizeOperator_def Let_def checkFilterIsArray_eq invalidColumn_def)


lemma arrayOperators_cases:
  "op \<in> set arrayOperators \<Longrightarrow>
     op = ''$in'' \<or> op = ''$notin'' \<or> op = ''$inL'' \<or> op = ''$notinL''
     \<or> op = ''$between'' \<or> op = ''$contArr'' \<or> op = ''$intersectsArr''"
  unfolding arrayOperators_def by (simp only: list.set insert_iff empty_iff simp_thms)

lemma array_builtin:
  assumes a: "op \<in> set arrayOperators" and nn: "op = ''$between'' \<longrightarrow> \<not> isNil v"
  shows "((mapOperatorsToQuery svc \<lparr>field = fld, operator = op, qvalue = v\<rparr> param customOperators
          = Inl (invalidColumn fld))
         = (\<not> isArrayFull v \<or> (op = ''$between'' \<and> length (elements v) \<noteq> 2)))
      \<and> (isArrayFull v \<and> (op = ''$between'' \<longrightarrow> length (elements v) = 2)
           \<and> (op \<in> {''$contArr'', ''$intersectsArr''} \<longrightarrow> map_of (ownColumns svc) fld \<noteq> None)
         \<longrightarrow> (\<exists>q. mapOperatorsToQuery svc \<lparr>field = fld, operator = op, qvalue = v\<rparr> param customOperators = Inr q))"
proof -
  define Q where "Q = (\<lambda>op.
      ((mapOperatorsToQuery svc \<lparr>field = fld, operator = op, qvalue = v\<rparr> param customOperators
          = Inl (invalidColumn fld))
         = (\<not> isArrayFull v \<or> (op = ''$between'' \<and> length (elements v) \<noteq> 2)))
      \<and> (isArrayFull v \<and> (op = ''$between'' \<longrightarrow> length (elements v) = 2)
           \<and> (op \<in> {''$contArr'', ''$intersectsArr''} \<longrightarrow> map_of (ownColumns svc) fld \<noteq> None)
         \<longrightarrow> (\<exists>q. mapOperatorsToQuery svc \<lparr>field = fld, operator = op, qvalue = v\<rparr> param customOperators = Inr q)))"
  have 1: "Q ''$in''" by (simp add: Q_def map_in)
  have 2: "Q ''$notin''" by (simp add: Q_def map_notin)
  have 3: "Q ''$inL''" by (simp add: Q_def map_inL)
  have 4: "Q ''$notinL''" by (simp add: Q_def map_notinL)
  have 5: "\<not> isNil v \<Longrightarrow> Q ''$between''" by (simp add: Q_def map_between)
  have 6: "Q ''$contArr''"
    by (auto simp: Q_def map_contArr getColumnType_def invalidColumn_def split: option.splits)
  have 7: "Q ''$intersectsArr''"
    by (auto simp: Q_def map_intersectsArr getColumnType_def invalidColumn_def split: option.splits)
  from arrayOperators_cases [OF a] have "Q op"
  proof (elim disjE)
    assume "op = ''$in''" then show ?thesis using 1 by simp
  next
    assume "op = ''$notin''" then show ?thesis using 2 by simp
  next
    assume "op = ''$inL''" then show ?thesis using 3 by simp
  next
    assume "op = ''$notinL''" then show ?thesis using 4 by simp
  next
    assume "op = ''$between''" then show ?thesis using 5 nn by simp
  next
    assume "op = ''$contArr''" then show ?thesis using 6 by simp
  next
    assume "op = ''$intersectsArr''" then show ?thesis using 7 by simp
  qed
  then show ?thesis unfolding Q_def .
qed

text \<open>
  C6, as the code has it. For a built-in array-class operator and a value that is not
  \<open>null\<close> or \<open>undefined\<close> under \<open>$between\<close>, \<open>mapOperatorsToQuery\<close> fails with the
  bad request \<open>Invalid column 'field' value\<close> exactly when the value is not a
  non-empty array or, for \<open>$between\<close>, its length is not 2; otherwise it returns the
  fragment (for \<open>$contArr\<close> and \<open>$intersectsArr\<close>, when the column's type is known). A
  custom operator flagged \<open>isArray\<close> fails with the bad request
  \<open>Invalid custom operator\<close> on such a value. A \<open>null\<close> value that reaches the tree
  compiler is compiled to \<open>IS NULL\<close> whatever the operator, with no error.
\<close>

theorem array_operator_values_checked:
  "(op \<in> set arrayOperators \<and> (op = ''$between'' \<longrightarrow> \<not> isNil v) \<longrightarrow>
      ((mapOperatorsToQuery svc \<lparr>field = fld, operator = op, qvalue = v\<rparr> param customOperators
          = Inl (invalidColumn fld))
         = (\<not> isArrayFull v \<or> (op = ''$between'' \<and> length (elements v) \<noteq> 2)))
      \<and> (isArrayFull v \<and> (op = ''$between'' \<longrightarrow> length (elements v) = 2)
           \<and> (op \<in> {''$contArr'', ''$intersectsArr''} \<longrightarrow> map_of (ownColumns svc) fld \<noteq> None)
         \<longrightarrow> (\<exists>q. mapOperatorsToQuery svc \<lparr>field = fld, operator = op, qvalue = v\<rparr> param customOperators = Inr q)))
   \<and> (op \<notin> set builtinOperators \<and> normalizeOperator op = op \<and> map_of customOperators op = Some c
        \<and> isArrayOp c \<and> \<not> isArrayFull v \<longrightarrow>
        mapOperatorsToQuery svc \<lparr>field = fld, operator = op, qvalue = v\<rparr> param customOperators
          = Inl (BadRequestException
                   (''Invalid custom operator '' @ quote @ getFieldWithAlias svc fld False @ quote @ '' query'')))
   \<and> builderSetWhere svc st builder condition fld JNull customOperators op
        = Inr (pushWhere (st\<lparr>hrtime_reads := Suc (hrtime_reads st)\<rparr>) builder
                (if condition = ''$and'' then ''and'' else ''or'',
                 WStr (getFieldWithAlias svc fld False @ '' IS NULL'')))"
proof (rule conjI [OF _ conjI])
  show "op \<in> set arrayOperators \<and> (op = ''$between'' \<longrightarrow> \<not> isNil v) \<longrightarrow>
      ((mapOperatorsToQuery svc \<lparr>field = fld, operator = op, qvalue = v\<rparr> param customOperators
          = Inl (invalidColumn fld))
         = (\<not> isArrayFull v \<or> (op = ''$between'' \<and> length (elements v) \<noteq> 2)))
      \<and> (isArrayFull v \<and> (op = ''$between'' \<longrightarrow> length (elements v) = 2)
           \<and> (op \<in> {''$contArr'', ''$intersectsArr''} \<longrightarrow> map_of (ownColumns svc) fld \<noteq> None)
         \<longrightarrow> (\<exists>q. mapOperatorsToQuery svc \<lparr>field = fld, operator = op, qvalue = v\<rparr> param customOperators = Inr q))"
    by (rule impI, erule conjE, rule array_builtin, assumption+)
  show "op \<notin> set builtinOperators \<and> normalizeOperator op = op \<and> map_of customOperators op = Some c
        \<and> isArrayOp c \<and> \<not> isArrayFull v \<longrightarrow>
        mapOperatorsToQuery svc \<lparr>field = fld, operator = op, qvalue = v\<rparr> param customOperators
          = Inl (BadRequestException
                   (''Invalid custom operator '' @ quote @ getFieldWithAlias svc fld False @ quote @ '' query''))"
    by (rule impI, (erule conjE)+, rule array_custom, assumption+)
  show "builderSetWhere svc st builder condition fld JNull customOperators op
        = Inr (pushWhere (st\<lparr>hrtime_reads := Suc (hrtime_reads st)\<rparr>) builder
                (if condition = ''$and'' then ''and'' else ''or'',
                 WStr (getFieldWithAlias svc fld False @ '' IS NULL'')))"
    by (rule null_any_operator)
qed


theorem array_operator_values_checked_witness:
  "mapOperatorsToQuery companyService \<lparr>field = ''name'', operator = ''$between'', qvalue = JArr [JNum 1, JNum 2, JNum 3]\<rparr>
      ''p'' [] = Inl (invalidColumn ''name'')
   \<and> (\<exists>q. mapOperatorsToQuery companyService \<lparr>field = ''name'', operator = ''$contArr'', qvalue = JArr [JNum 1]\<rparr>
      ''p'' [] = Inr q)
   \<and> mapOperatorsToQuery companyService \<lparr>field = ''name'', operator = ''$tilde'', qvalue = JNum 3\<rparr>
      ''p'' [(''$tilde'', tildeOperator)]
     = Inl (BadRequestException
              (''Invalid custom operator '' @ quote @ getFieldWithAlias companyService ''name'' False @ quote @ '' query''))"
proof -
  have h1: "''$between'' \<in> set arrayOperators \<and> (''$between'' = ''$between'' \<longrightarrow> \<not> isNil (JArr [JNum 1, JNum 2, JNum 3]))"
    by (simp add: arrayOperators_def isNil_def)
  have h2: "''$contArr'' \<in> set arrayOperators \<and> (''$contArr'' = ''$between'' \<longrightarrow> \<not> isNil (JArr [JNum 1]))"
    by (simp add: arrayOperators_def)
  have h3: "''$tilde'' \<notin> set builtinOperators \<and> normalizeOperator ''$tilde'' = ''$tilde''
      \<and> map_of [(''$tilde'', tildeOperator)] ''$tilde'' = Some tildeOperator
      \<and> isArrayOp tildeOperator \<and> \<not> isArrayFull (JNum 3)"
    by (simp add: builtinOperators_def normalizeOperator_def tildeOperator_def)
  have c: "map_of (ownColumns companyService) ''name'' \<noteq> None"
    by (simp add: companyService_def)
  from array_operator_values_checked
      [where op = "''$between''" and v = "JArr [JNum 1, JNum 2, JNum 3]" and svc = companyService and fld = "''name''"
         and param = "''p''" and customOperators = "[]", THEN conjunct1, THEN mp, OF h1]
  have r1: "mapOperatorsToQuery companyService
      \<lparr>field = ''name'', operator = ''$between'', qvalue = JArr [JNum 1, JNum 2, JNum 3]\<rparr> ''p'' []
        = Inl (invalidColumn ''name'')"
    by simp
  from array_operator_values_checked
      [where op = "''$contArr''" and v = "JArr [JNum 1]" and svc = companyService and fld = "''name''"
         and param = "''p''" and customOperators = "[]", THEN conjunct1, THEN mp, OF h2] c
  have r2: "\<exists>q. mapOperatorsToQuery companyService
      \<lparr>field = ''name'', operator = ''$contArr'', qvalue = JArr [JNum 1]\<rparr> ''p'' [] = Inr q"
    by simp
  note r3 = array_operator_values_checked
      [where op = "''$tilde''" and v = "JNum 3" and svc = companyService and fld = "''name''"
         and param = "''p''" and customOperators = "[(''$tilde'', tildeOperator)]" and c = tildeOperator,
       THEN conjunct2, THEN conjunct1, THEN mp, OF h3]
  from r1 r2 r3 show ?thesis by (intro conjI)
qed

text \<open>
  C6 as stated fails on a \<open>null\<close> value: \<open>{name: {$in: null}}\<close> is not an array, yet
  it compiles, to \<open>IS NULL\<close>.
\<close>

theorem null_under_array_operator_counterexample:
  "\<not> isArray JNull
   \<and> compiled (setSearchCondition companyService emptyBuilders 0
        (JObj [(''name'', JObj [(''$in'', JNull)])]) [] ''$and'')
     = Inr ([(''and'', WStr ([CHR 0x22] @ ''Company'' @ [CHR 0x22] @ ''.'' @ [CHR 0x22] @ ''name'' @ [CHR 0x22] @ '' IS NULL''))], [])"
  by code_simp


text \<open>
  C2 on the code, for a filter leaf: the field \<open>users.name'--\<close> carries a signature the
  check rejects, and \<open>mapOperatorsToQuery\<close> puts it into the fragment unchecked; the
  search \<open>{"users.name'--": 1}\<close> compiles.
\<close>

theorem filter_field_signature_not_checked:
  "fst (checkSqlInjection [0, 0, 0, 0] injectedField)
     = Inl (BadRequestException (''SQL injection detected: '' @ [CHR 0x22] @ injectedField @ [CHR 0x22]))
   \<and> mapOperatorsToQuery companyService \<lparr>field = injectedField, operator = ''$eq'', qvalue = JNum 1\<rparr> ''p'' []
     = Inr \<lparr>str = injectedField @ '' = :p'', params = [(''p'', JNum 1)]\<rparr>
   \<and> compiled (setSearchCondition companyService emptyBuilders 0 (JObj [(injectedField, JNum 1)]) [] ''$and'')
     = Inr ([(''and'', WStr (injectedField @ '' = :andWhere_____________70''))],
            [(''andWhere_____________70'', JNum 1)])"
  by code_simp

text \<open>
  The check itself, on a sort field: the patterns are global regular expressions, so a
  match leaves \<open>lastIndex\<close> behind, and the third identical request passes.
\<close>

lemma sort_signature_check_depends_on_lastIndex:
  "mapSort companyService [0, 0, 0, 0] [injectedSort]
     = (Inl (BadRequestException (''SQL injection detected: '' @ [CHR 0x22] @ ''Company.name'' @ quote @ ''--'' @ [CHR 0x22])),
        [13, 0, 0, 0])
   \<and> mapSort companyService [13, 0, 0, 0] [injectedSort]
     = (Inl (BadRequestException (''SQL injection detected: '' @ [CHR 0x22] @ ''Company.name'' @ quote @ ''--'' @ [CHR 0x22])),
        [15, 0, 0, 0])
   \<and> mapSort companyService [15, 0, 0, 0] [injectedSort]
     = (Inr [(''Company.name'' @ quote @ ''--'', ''ASC'')], [0, 0, 0, 0])"
  by code_simp

text \<open>An object that is exactly \<open>{$and: [x]}\<close> or \<open>{$or: [x]}\<close> compiles as \<open>x\<close> does.\<close>

lemma and_singleton_collapses:
  "setSearchCondition svc st builder (JObj [(''$and'', JArr [x])]) customOperators condition
     = setSearchCondition svc st builder x customOperators condition"
  by (subst setSearchCondition.simps) (simp add: objKeys_def obj_get_def)

lemma or_singleton_collapses:
  "setSearchCondition svc st builder (JObj [(''$or'', JArr [x])]) customOperators condition
     = setSearchCondition svc st builder x customOperators condition"
  by (subst setSearchCondition.simps) (simp add: objKeys_def obj_get_def)

lemma setSearchCondition_JObj:
  "setSearchCondition svc st builder (JObj kvs) customOperators condition =
     (let search = JObj kvs; keys = map fst kvs in
         if keys \<noteq> [] then
           (if isArrayFull (obj_get search ''$not'') then
              builderAddBrackets st builder condition
                (\<lambda>qb. forEach (elements (obj_get search ''$not''))
                   (\<lambda>item s. setSearchCondition svc s qb item customOperators ''$and''))
                True
            else if isArrayFull (obj_get search ''$and'') then
              (case elements (obj_get search ''$and'') of
                 [item] \<Rightarrow> setSearchCondition svc st builder item customOperators condition
               | items \<Rightarrow>
                   builderAddBrackets st builder condition
                     (\<lambda>qb. forEach items
                        (\<lambda>item s. setSearchCondition svc s qb item customOperators ''$and''))
                     False)
            else if isArrayFull (obj_get search ''$or'') then
              (if length keys = 1 then
                 (case elements (obj_get search ''$or'') of
                    [item] \<Rightarrow> setSearchCondition svc st builder item customOperators condition
                  | items \<Rightarrow>
                      builderAddBrackets st builder condition
                        (\<lambda>qb. forEach items
                           (\<lambda>item s. setSearchCondition svc s qb item customOperators ''$or''))
                        False)
               else
                 builderAddBrackets st builder condition
                   (\<lambda>qb. forEach keys
                      (\<lambda>fld s.
                         if fld \<noteq> ''$or'' then
                           setFieldCondition svc s qb ''$and'' fld (obj_get search fld) customOperators
                         else
                           (case elements (obj_get search ''$or'') of
                              [item] \<Rightarrow> setSearchCondition svc s builder item customOperators ''$and''
                            | items \<Rightarrow>
                                builderAddBrackets s qb ''$and''
                                  (\<lambda>qb2. forEach items
                                     (\<lambda>item s2. setSearchCondition svc s2 qb2 item customOperators ''$or''))
                                  False)))
                   False)
            else
              (if length keys = 1 then
                 setFieldCondition svc st builder condition (hd keys) (obj_get search (hd keys)) customOperators
               else
                 builderAddBrackets st builder condition
                   (\<lambda>qb. forEach keys
                      (\<lambda>fld s. setFieldCondition svc s qb ''$and'' fld (obj_get search fld) customOperators))
                   False))
         else Inr st)"
  by (subst setSearchCondition.simps) (simp add: objKeys_def Let_def)

lemma mapOperatorsToQuery_eq:
  "mapOperatorsToQuery svc \<lparr>field = fld, operator = ''$eq'', qvalue = v\<rparr> param customOperators
     = Inr \<lparr>str = getFieldWithAlias svc fld False @ '' = :'' @ param, params = [(param, v)]\<rparr>"
  by (simp add: mapOperatorsToQuery_def normalizeOperator_def Let_def)

lemma setFieldCondition_scalar:
  "\<not> isObject v \<Longrightarrow> \<not> isNull v \<Longrightarrow>
   setFieldCondition svc st builder condition fld v customOperators =
     (let index = safeFieldName fld @ string_of_nat (fst (hrtime st (hrtime_reads st)))
                    @ string_of_nat (snd (hrtime st (hrtime_reads st)));
          st1 = st\<lparr>hrtime_reads := Suc (hrtime_reads st)\<rparr>
      in if condition = ''$and''
         then Inr (andWhere st1 builder (getFieldWithAlias svc fld False @ '' = :'' @ ''andWhere'' @ index)
                     [(''andWhere'' @ index, v)])
         else Inr (orWhere st1 builder (getFieldWithAlias svc fld False @ '' = :'' @ ''orWhere'' @ index)
                     [(''orWhere'' @ index, v)]))"
  by (simp add: setFieldCondition_def builderSetWhere_def setAndWhere_def setOrWhere_def
        mapOperatorsToQuery_eq Let_def)

lemma setFieldCondition_scalar_or:
  "\<not> isObject v \<Longrightarrow> \<not> isNull v \<Longrightarrow> condition \<noteq> ''$and'' \<Longrightarrow>
   setFieldCondition svc st builder condition fld v customOperators =
     (let index = safeFieldName fld @ string_of_nat (fst (hrtime st (hrtime_reads st)))
                    @ string_of_nat (snd (hrtime st (hrtime_reads st)));
          st1 = st\<lparr>hrtime_reads := Suc (hrtime_reads st)\<rparr>
      in Inr (orWhere st1 builder (getFieldWithAlias svc fld False @ '' = :'' @ ''orWhere'' @ index)
                     [(''orWhere'' @ index, v)]))"
  by (simp add: setFieldCondition_scalar Let_def)

lemmas unfold_simps =
  setSearchCondition_JObj obj_get_def builderAddBrackets_def createQueryBuilder_def

lemmas eval_simps =
  setFieldCondition_scalar Let_def safeFieldName_def string_of_nat.simps digit_char_def andWhere_def
  orWhere_def pushWhere_def setParameters_def obj_set_def obj_get_def getFieldWithAlias_def

lemma sole_or_element_top: "compiled (setSearchCondition companyService emptyBuilders 0
       (JObj [(''name'', JStr ''x''), (''$or'', JArr [JObj [(''id'', JNum 1)]])]) [] ''$and'')
     = Inr ([(''and'', WStr ([CHR 0x22] @ ''Company'' @ [CHR 0x22] @ ''.'' @ [CHR 0x22] @ ''id'' @ [CHR 0x22] @ '' = :andWhere__71'')),
             (''and'', WBrackets
                [(''and'', WStr ([CHR 0x22] @ ''Company'' @ [CHR 0x22] @ ''.'' @ [CHR 0x22] @ ''name'' @ [CHR 0x22] @ '' = :andWhere____70''))])],
            [(''andWhere____70'', JStr ''x''), (''andWhere__71'', JNum 1)])"
  apply (simp add: unfold_simps)
  apply (simp add: eval_simps emptyBuilders_def companyService_def)
  apply (simp add: unfold_simps)
  apply (simp add: eval_simps compiled_def)
  apply (simp add: emptyBuilders_def)
  done

lemma and_pair_in_one_bracket: "compiled (setSearchCondition companyService emptyBuilders 0
       (JObj [(''$and'', JArr [JObj [(''name'', JStr ''x'')], JObj [(''id'', JNum 1)]])]) [] ''$and'')
     = Inr ([(''and'', WBrackets
                [(''and'', WStr ([CHR 0x22] @ ''Company'' @ [CHR 0x22] @ ''.'' @ [CHR 0x22] @ ''name'' @ [CHR 0x22] @ '' = :andWhere____70'')),
                 (''and'', WStr ([CHR 0x22] @ ''Company'' @ [CHR 0x22] @ ''.'' @ [CHR 0x22] @ ''id'' @ [CHR 0x22] @ '' = :andWhere__71''))])],
            [(''andWhere____70'', JStr ''x''), (''andWhere__71'', JNum 1)])"
  apply (simp add: unfold_simps)
  apply (simp add: eval_simps emptyBuilders_def companyService_def)
  apply (simp add: unfold_simps)
  apply (simp add: eval_simps compiled_def)
  apply (simp add: emptyBuilders_def)
  done

lemma sole_or_element_under_or: "compiled (setSearchCondition companyService emptyBuilders 0
       (JObj [(''$or'', JArr [JObj [(''domain'', JNum 0)],
                             JObj [(''name'', JStr ''x''), (''$or'', JArr [JObj [(''id'', JNum 1)]])]])]) [] ''$and'')
     = Inr ([(''and'', WBrackets
                [(''or'', WStr ([CHR 0x22] @ ''Company'' @ [CHR 0x22] @ ''.'' @ [CHR 0x22] @ ''domain'' @ [CHR 0x22] @ '' = :orWhere______70'')),
                 (''and'', WStr ([CHR 0x22] @ ''Company'' @ [CHR 0x22] @ ''.'' @ [CHR 0x22] @ ''id'' @ [CHR 0x22] @ '' = :andWhere__72'')),
                 (''or'', WBrackets
                    [(''and'', WStr ([CHR 0x22] @ ''Company'' @ [CHR 0x22] @ ''.'' @ [CHR 0x22] @ ''name'' @ [CHR 0x22] @ '' = :andWhere____71''))])])],
            [(''orWhere______70'', JNum 0), (''andWhere____71'', JStr ''x''), (''andWhere__72'', JNum 1)])"
  apply (simp add: unfold_simps)
  apply (simp add: eval_simps emptyBuilders_def companyService_def)
  apply (simp add: unfold_simps)
  apply (simp add: eval_simps compiled_def)
  apply (simp add: unfold_simps)
  apply (simp add: eval_simps compiled_def)
  apply (simp add: emptyBuilders_def)
  done

text \<open>
  C3 on the code, at the position the claim names: the object \<open>{name: 'x', $or: [{id: 1}]}\<close>.
  The sole element of the \<open>$or\<close> is compiled on the outer builder, not in the bracket
  of its siblings: the clause for \<open>id\<close> stands outside the bracket and before it,
  where \<open>{$and: [{name: 'x'}, {id: 1}]}\<close> puts both in one bracket. Under a parent
  \<open>$or\<close> the clause joins the parent's alternatives with \<open>and\<close>.
\<close>

theorem sole_or_element_leaves_the_bracket:
  "(compiled (setSearchCondition companyService emptyBuilders 0
       (JObj [(''name'', JStr ''x''), (''$or'', JArr [JObj [(''id'', JNum 1)]])]) [] ''$and'')
     = Inr ([(''and'', WStr ([CHR 0x22] @ ''Company'' @ [CHR 0x22] @ ''.'' @ [CHR 0x22] @ ''id'' @ [CHR 0x22] @ '' = :andWhere__71'')),
             (''and'', WBrackets
                [(''and'', WStr ([CHR 0x22] @ ''Company'' @ [CHR 0x22] @ ''.'' @ [CHR 0x22] @ ''name'' @ [CHR 0x22] @ '' = :andWhere____70''))])],
            [(''andWhere____70'', JStr ''x''), (''andWhere__71'', JNum 1)]))
   \<and> (compiled (setSearchCondition companyService emptyBuilders 0
       (JObj [(''$and'', JArr [JObj [(''name'', JStr ''x'')], JObj [(''id'', JNum 1)]])]) [] ''$and'')
     = Inr ([(''and'', WBrackets
                [(''and'', WStr ([CHR 0x22] @ ''Company'' @ [CHR 0x22] @ ''.'' @ [CHR 0x22] @ ''name'' @ [CHR 0x22] @ '' = :andWhere____70'')),
                 (''and'', WStr ([CHR 0x22] @ ''Company'' @ [CHR 0x22] @ ''.'' @ [CHR 0x22] @ ''id'' @ [CHR 0x22] @ '' = :andWhere__71''))])],
            [(''andWhere____70'', JStr ''x''), (''andWhere__71'', JNum 1)]))
   \<and> (compiled (setSearchCondition companyService emptyBuilders 0
       (JObj [(''$or'', JArr [JObj [(''domain'', JNum 0)],
                             JObj [(''name'', JStr ''x''), (''$or'', JArr [JObj [(''id'', JNum 1)]])]])]) [] ''$and'')
     = Inr ([(''and'', WBrackets
                [(''or'', WStr ([CHR 0x22] @ ''Company'' @ [CHR 0x22] @ ''.'' @ [CHR 0x22] @ ''domain'' @ [CHR 0x22] @ '' = :orWhere______70'')),
                 (''and'', WStr ([CHR 0x22] @ ''Company'' @ [CHR 0x22] @ ''.'' @ [CHR 0x22] @ ''id'' @ [CHR 0x22] @ '' = :andWhere__72'')),
                 (''or'', WBrackets
                    [(''and'', WStr ([CHR 0x22] @ ''Company'' @ [CHR 0x22] @ ''.'' @ [CHR 0x22] @ ''name'' @ [CHR 0x22] @ '' = :andWhere____71''))])])],
            [(''orWhere______70'', JNum 0), (''andWhere____71'', JStr ''x''), (''andWhere__72'', JNum 1)]))"
  using sole_or_element_top and_pair_in_one_bracket sole_or_element_under_or by (intro conjI)

lemma getRelationMetadata_None:
  "getRelationMetadata svc fld options hash = (None, h) \<Longrightarrow> h = hash"
  by (auto simp: getRelationMetadata_def Let_def split: option.splits prod.splits if_splits)

lemma setJoin_undeclared:
  "map_of joinOptions (join_field cond) = None \<Longrightarrow> join_field cond \<notin> set objectPrototype \<Longrightarrow>
   setJoin svc cond joinOptions (ss, builder)
     = Inr (ss\<lparr>console := console ss @ [relationWarning (join_field cond) joinOptions]\<rparr>, builder)"
  by (simp add: setJoin_def joinOption_def)

lemma setJoin_unresolved:
  "joinOption joinOptions (join_field cond) = Some options \<Longrightarrow>
   fst (getRelationMetadata svc (join_field cond) options (entityRelationsHash ss)) = None \<Longrightarrow>
   setJoin svc cond joinOptions (ss, builder) = Inr (ss, builder)"
proof -
  assume o: "joinOption joinOptions (join_field cond) = Some options"
    and n: "fst (getRelationMetadata svc (join_field cond) options (entityRelationsHash ss)) = None"
  obtain h where g: "getRelationMetadata svc (join_field cond) options (entityRelationsHash ss) = (None, h)"
    using n by (cases "getRelationMetadata svc (join_field cond) options (entityRelationsHash ss)") auto
  from getRelationMetadata_None [OF g] have "h = entityRelationsHash ss" .
  with o g show ?thesis by (simp add: setJoin_def)
qed

lemma forEach_undeclared:
  "list_all (\<lambda>j. map_of joinOptions (join_field j) = None) js \<Longrightarrow>
   forEach js (\<lambda>j w. if \<not> eagerJoinsRead [] (join_field j) then setJoin svc j joinOptions w else Inr w) (ss, builder)
     = Inr (ss\<lparr>console := console ss
              @ map (\<lambda>j. relationWarning (join_field j) joinOptions)
                  (filter (\<lambda>j. join_field j \<notin> set objectPrototype) js)\<rparr>, builder)"
proof (induction js arbitrary: ss)
  case Nil
  then show ?case by simp
next
  case (Cons j js)
  then show ?case by (simp add: setJoin_undeclared eagerJoinsRead_def)
qed

lemma setEagerJoins_none:
  "list_all (\<lambda>a. case map_of joinOptions a of Some o' \<Rightarrow> \<not> eager o' | None \<Rightarrow> True) as \<Longrightarrow>
   setEagerJoins svc parsed joinOptions as world eagerJoins = Inr (world, eagerJoins)"
  by (induction as) (auto split: option.splits)


lemma setJoins_undeclared:
  assumes u: "list_all (\<lambda>j. map_of joinOptions (join_field j) = None) (pjoin parsed)"
    and e: "list_all (\<lambda>(k, o'). \<not> eager o') joinOptions"
    and n: "joinOptions \<noteq> []"
  shows "setJoins svc parsed joinOptions (ss, builder)
     = Inr (ss\<lparr>console := console ss
              @ map (\<lambda>j. relationWarning (join_field j) joinOptions)
                  (filter (\<lambda>j. join_field j \<notin> set objectPrototype) (pjoin parsed))\<rparr>,
            builder)"
proof -
  have "list_all (\<lambda>a. case map_of joinOptions a of Some o' \<Rightarrow> \<not> eager o' | None \<Rightarrow> True) (map fst joinOptions)"
    using e by (auto simp: list_all_iff split: option.splits dest: map_of_SomeD)
  then have "setEagerJoins svc parsed joinOptions (map fst joinOptions) (ss, builder) [] = Inr ((ss, builder), [])"
    by (rule setEagerJoins_none)
  with n forEach_undeclared [OF u, of svc ss builder] show ?thesis
    by (simp add: setJoins_def hasLength_def)
qed

text \<open>
  C9, as the code has it. A join whose field is neither declared among the route's join
  options nor the name of a member every object inherits (\<open>toString\<close>, \<open>constructor\<close>,
  \<open>valueOf\<close> and the like) is skipped by \<open>setJoin\<close> with a console warning and leaves the
  builder as it was. A join whose field is declared, or is such an inherited name, but
  whose relation metadata does not resolve is skipped without a warning. In
  \<open>createBuilder\<close>, with join options declared and none of them eager, the requested
  joins that are all undeclared are skipped, each with its warning except those with an
  inherited name, for which \<open>setJoin\<close> is not even called; and when the route declares
  no join option at all, requested joins are dropped without a warning. No case raises.
\<close>

theorem undeclared_join_is_skipped:
  "(map_of joinOptions (join_field cond) = None \<and> join_field cond \<notin> set objectPrototype \<longrightarrow>
      setJoin svc cond joinOptions (ss, builder)
        = Inr (ss\<lparr>console := console ss @ [relationWarning (join_field cond) joinOptions]\<rparr>, builder))
   \<and> (map_of joinOptions (join_field cond) = Some options
        \<and> fst (getRelationMetadata svc (join_field cond) options (entityRelationsHash ss)) = None \<longrightarrow>
      setJoin svc cond joinOptions (ss, builder) = Inr (ss, builder))
   \<and> (map_of joinOptions (join_field cond) = None \<and> join_field cond \<in> set objectPrototype
        \<and> fst (getRelationMetadata svc (join_field cond) inheritedJoinOption (entityRelationsHash ss)) = None \<longrightarrow>
      setJoin svc cond joinOptions (ss, builder) = Inr (ss, builder))
   \<and> (list_all (\<lambda>j. map_of joinOptions (join_field j) = None) (pjoin parsed)
        \<and> list_all (\<lambda>(k, o'). \<not> eager o') joinOptions \<and> joinOptions \<noteq> [] \<longrightarrow>
      setJoins svc parsed joinOptions (ss, builder)
        = Inr (ss\<lparr>console := console ss
                 @ map (\<lambda>j. relationWarning (join_field j) joinOptions)
                     (filter (\<lambda>j. join_field j \<notin> set objectPrototype) (pjoin parsed))\<rparr>,
               builder))
   \<and> (joinOptions = [] \<longrightarrow> setJoins svc parsed joinOptions (ss, builder) = Inr (ss, builder))"
proof (intro conjI impI)
  assume "map_of joinOptions (join_field cond) = None \<and> join_field cond \<notin> set objectPrototype"
  then show "setJoin svc cond joinOptions (ss, builder)
        = Inr (ss\<lparr>console := console ss @ [relationWarning (join_field cond) joinOptions]\<rparr>, builder)"
    by (simp add: setJoin_undeclared)
next
  assume a: "map_of joinOptions (join_field cond) = Some options
        \<and> fst (getRelationMetadata svc (join_field cond) options (entityRelationsHash ss)) = None"
  then have "joinOption joinOptions (join_field cond) = Some options"
    by (simp add: joinOption_def)
  with a show "setJoin svc cond joinOptions (ss, builder) = Inr (ss, builder)"
    using setJoin_unresolved by blast
next
  assume a: "map_of joinOptions (join_field cond) = None \<and> join_field cond \<in> set objectPrototype
        \<and> fst (getRelationMetadata svc (join_field cond) inheritedJoinOption (entityRelationsHash ss)) = None"
  then have "joinOption joinOptions (join_field cond) = Some inheritedJoinOption"
    by (simp add: joinOption_def)
  with a show "setJoin svc cond joinOptions (ss, builder) = Inr (ss, builder)"
    using setJoin_unresolved by blast
next
  assume "list_all (\<lambda>j. map_of joinOptions (join_field j) = None) (pjoin parsed)
        \<and> list_all (\<lambda>(k, o'). \<not> eager o') joinOptions \<and> joinOptions \<noteq> []"
  then show "setJoins svc parsed joinOptions (ss, builder)
        = Inr (ss\<lparr>console := console ss
                 @ map (\<lambda>j. relationWarning (join_field j) joinOptions)
                     (filter (\<lambda>j. join_field j \<notin> set objectPrototype) (pjoin parsed))\<rparr>,
               builder)"
    using setJoins_undeclared by blast
next
  assume "joinOptions = []"
  then show "setJoins svc parsed joinOptions (ss, builder) = Inr (ss, builder)"
    by (simp add: setJoins_def hasLength_def)
qed

theorem undeclared_join_is_skipped_witness:
  "setJoin companyService ghostJoin [(''users'', plainJoin)] (emptyState, emptyQuery)
     = Inr (emptyState\<lparr>console := [relationWarning ''ghost'' [(''users'', plainJoin)]]\<rparr>, emptyQuery)
   \<and> setJoin companyService ghostJoin [(''ghost'', plainJoin)] (emptyState, emptyQuery)
     = Inr (emptyState, emptyQuery)
   \<and> setJoin companyService toStringJoin [(''users'', plainJoin)] (emptyState, emptyQuery)
     = Inr (emptyState, emptyQuery)
   \<and> setJoins companyService (noParams\<lparr>pjoin := [ghostJoin, toStringJoin]\<rparr>) [(''users'', plainJoin)]
       (emptyState, emptyQuery)
     = Inr (emptyState\<lparr>console := [relationWarning ''ghost'' [(''users'', plainJoin)]]\<rparr>, emptyQuery)
   \<and> setJoins companyService (noParams\<lparr>pjoin := [ghostJoin, toStringJoin]\<rparr>) [] (emptyState, emptyQuery)
     = Inr (emptyState, emptyQuery)"
proof -
  have g: "fst (getRelationMetadata companyService ''ghost'' plainJoin []) = None"
    by (simp add: getRelationMetadata_def companyService_def)
  have i: "fst (getRelationMetadata companyService ''toString'' inheritedJoinOption []) = None"
    by (simp add: getRelationMetadata_def companyService_def)
  note t = undeclared_join_is_skipped
    [where svc = companyService and ss = emptyState and builder = emptyQuery
       and parsed = "noParams\<lparr>pjoin := [ghostJoin, toStringJoin]\<rparr>"]
  from t [where joinOptions = "[(''users'', plainJoin)]" and cond = ghostJoin]
  have 1: "setJoin companyService ghostJoin [(''users'', plainJoin)] (emptyState, emptyQuery)
     = Inr (emptyState\<lparr>console := [relationWarning ''ghost'' [(''users'', plainJoin)]]\<rparr>, emptyQuery)"
    and 4: "setJoins companyService (noParams\<lparr>pjoin := [ghostJoin, toStringJoin]\<rparr>) [(''users'', plainJoin)]
       (emptyState, emptyQuery)
     = Inr (emptyState\<lparr>console := [relationWarning ''ghost'' [(''users'', plainJoin)]]\<rparr>, emptyQuery)"
    by (simp_all add: ghostJoin_def toStringJoin_def emptyState_def plainJoin_def noParams_def objectPrototype_def)
  from t [where joinOptions = "[(''ghost'', plainJoin)]" and options = plainJoin and cond = ghostJoin] g
  have 2: "setJoin companyService ghostJoin [(''ghost'', plainJoin)] (emptyState, emptyQuery)
     = Inr (emptyState, emptyQuery)"
    by (simp add: ghostJoin_def emptyState_def)
  from t [where joinOptions = "[(''users'', plainJoin)]" and cond = toStringJoin] i
  have 3: "setJoin companyService toStringJoin [(''users'', plainJoin)] (emptyState, emptyQuery)
     = Inr (emptyState, emptyQuery)"
    by (simp add: toStringJoin_def emptyState_def objectPrototype_def)
  from t [where joinOptions = "[]"]
  have 5: "setJoins companyService (noParams\<lparr>pjoin := [ghostJoin, toStringJoin]\<rparr>) [] (emptyState, emptyQuery)
     = Inr (emptyState, emptyQuery)"
    by simp
  from 1 2 3 4 5 show ?thesis by (intro conjI)
qed

text \<open>
  C9 as stated fails for a declared relation that does not resolve, and for an undeclared
  join named like an inherited member: the join is skipped, and nothing is written to the
  console.
\<close>

theorem unresolved_join_is_not_warned_counterexample:
  "map_of [(''ghost'', plainJoin)] (join_field ghostJoin) = Some plainJoin
   \<and> fst (getRelationMetadata companyService (join_field ghostJoin) plainJoin (entityRelationsHash emptyState)) = None
   \<and> console emptyState = []
   \<and> setJoin companyService ghostJoin [(''ghost'', plainJoin)] (emptyState, emptyQuery)
       = Inr (emptyState, emptyQuery)
   \<and> map_of [(''users'', plainJoin)] (join_field toStringJoin) = None
   \<and> setJoin companyService toStringJoin [(''users'', plainJoin)] (emptyState, emptyQuery)
       = Inr (emptyState, emptyQuery)"
  by (simp add: setJoin_def joinOption_def objectPrototype_def inheritedJoinOption_def getRelationMetadata_def
        companyService_def ghostJoin_def toStringJoin_def emptyState_def)


lemma parseParams_keeps:
  "parseParams env this params' opts = Inr p \<Longrightarrow>
     psearch p = psearch this \<and> pfilter p = pfilter this \<and> por p = por this"
  by (auto simp: parseParams_def andThen_def Let_def split: if_splits sum.splits)

lemma getParamsSearch_keeps:
  "getParamsSearch env parser0 crudOptions params' = Inr (ps, parser) \<Longrightarrow>
     psearch parser = psearch parser0 \<and> pfilter parser = pfilter parser0 \<and> por parser = por parser0"
  by (auto simp: getParamsSearch_def andThen_def split: if_splits sum.splits dest: parseParams_keeps)

lemma getSearch_plain:
  assumes "getParamsSearch env parser0 crudOptions params' = Inr (paramsSearch, parser)"
    and "\<forall>f. qfilter (co_query crudOptions) \<noteq> FilterFunction f"
  shows "getSearch env parser0 crudOptions action' params' =
     Inr (paramsSearch @ optionsFilter (qfilter (co_query crudOptions)) @
            (if truthy (psearch parser0) then [psearch parser0]
             else if pfilter parser0 \<noteq> [] \<and> por parser0 \<noteq> [] then
               (if length (pfilter parser0) = 1 \<and> length (por parser0) = 1
                then [JObj [(''$or'', JArr [convertFilterToSearch (pfilter parser0 ! 0),
                                           convertFilterToSearch (por parser0 ! 0)])]]
                else [JObj [(''$or'', JArr [JObj [(''$and'', JArr (map convertFilterToSearch (pfilter parser0)))],
                                           JObj [(''$and'', JArr (map convertFilterToSearch (por parser0)))]])]])
             else if pfilter parser0 \<noteq> [] then map convertFilterToSearch (pfilter parser0)
             else if por parser0 \<noteq> [] then
               (if length (por parser0) = 1 then [convertFilterToSearch (por parser0 ! 0)]
                else [JObj [(''$or'', JArr (map convertFilterToSearch (por parser0)))]])
             else []),
          parser)"
  using assms getParamsSearch_keeps [OF assms(1)]
  by (cases "qfilter (co_query crudOptions)") (simp_all add: getSearch_def andThen_def hasLength_def Let_def)

text \<open>
  C4, as the code has it. With no search parameter and a route filter that is not a
  function, \<open>getSearch\<close> returns the params search, the route's filter and then the
  client's part, which follows
  the tie-break: one filter and one or give a single \<open>$or\<close> of the two; several of
  either give \<open>$or\<close> of the \<open>$and\<close> of the filters and the \<open>$and\<close> of the ors; filters
  alone are listed one by one (the interceptor puts the list under \<open>$and\<close>); a single
  or passes through, several are wrapped in \<open>$or\<close>.
\<close>

theorem client_search_tie_break:
  assumes g: "getParamsSearch env parser0 crudOptions params' = Inr (paramsSearch, parser)"
    and nf: "\<forall>f. qfilter (co_query crudOptions) \<noteq> FilterFunction f"
    and ns: "\<not> truthy (psearch parser0)"
  shows "\<exists>clientSearch.
     getSearch env parser0 crudOptions action' params'
       = Inr (paramsSearch @ optionsFilter (qfilter (co_query crudOptions)) @ clientSearch, parser)
     \<and> (\<forall>f o'. pfilter parser0 = [f] \<and> por parser0 = [o'] \<longrightarrow>
           clientSearch = [JObj [(''$or'', JArr [convertFilterToSearch f, convertFilterToSearch o'])]])
     \<and> (pfilter parser0 \<noteq> [] \<and> por parser0 \<noteq> []
          \<and> (1 < length (pfilter parser0) \<or> 1 < length (por parser0)) \<longrightarrow>
           clientSearch = [JObj [(''$or'', JArr [JObj [(''$and'', JArr (map convertFilterToSearch (pfilter parser0)))],
                                               JObj [(''$and'', JArr (map convertFilterToSearch (por parser0)))]])]])
     \<and> (pfilter parser0 \<noteq> [] \<and> por parser0 = [] \<longrightarrow>
           clientSearch = map convertFilterToSearch (pfilter parser0))
     \<and> (\<forall>o'. pfilter parser0 = [] \<and> por parser0 = [o'] \<longrightarrow> clientSearch = [convertFilterToSearch o'])
     \<and> (pfilter parser0 = [] \<and> 1 < length (por parser0) \<longrightarrow>
           clientSearch = [JObj [(''$or'', JArr (map convertFilterToSearch (por parser0)))]])
     \<and> (pfilter parser0 = [] \<and> por parser0 = [] \<longrightarrow> clientSearch = [])"
proof -
  define cs where "cs =
     (if pfilter parser0 \<noteq> [] \<and> por parser0 \<noteq> [] then
        (if length (pfilter parser0) = 1 \<and> length (por parser0) = 1
         then [JObj [(''$or'', JArr [convertFilterToSearch (pfilter parser0 ! 0),
                                    convertFilterToSearch (por parser0 ! 0)])]]
         else [JObj [(''$or'', JArr [JObj [(''$and'', JArr (map convertFilterToSearch (pfilter parser0)))],
                                    JObj [(''$and'', JArr (map convertFilterToSearch (por parser0)))]])]])
      else if pfilter parser0 \<noteq> [] then map convertFilterToSearch (pfilter parser0)
      else if por parser0 \<noteq> [] then
        (if length (por parser0) = 1 then [convertFilterToSearch (por parser0 ! 0)]
         else [JObj [(''$or'', JArr (map convertFilterToSearch (por parser0)))]])
      else [])"
  have 0: "getSearch env parser0 crudOptions action' params'
       = Inr (paramsSearch @ optionsFilter (qfilter (co_query crudOptions)) @ cs, parser)"
    using getSearch_plain [OF g nf, of action'] ns by (simp add: cs_def)
  have 1: "\<forall>f o'. pfilter parser0 = [f] \<and> por parser0 = [o'] \<longrightarrow>
           cs = [JObj [(''$or'', JArr [convertFilterToSearch f, convertFilterToSearch o'])]]"
    by (simp add: cs_def)
  have 2: "pfilter parser0 \<noteq> [] \<and> por parser0 \<noteq> []
          \<and> (1 < length (pfilter parser0) \<or> 1 < length (por parser0)) \<longrightarrow>
           cs = [JObj [(''$or'', JArr [JObj [(''$and'', JArr (map convertFilterToSearch (pfilter parser0)))],
                                      JObj [(''$and'', JArr (map convertFilterToSearch (por parser0)))]])]]"
    by (auto simp: cs_def)
  have 3: "pfilter parser0 \<noteq> [] \<and> por parser0 = [] \<longrightarrow> cs = map convertFilterToSearch (pfilter parser0)"
    by (simp add: cs_def)
  have 4: "\<forall>o'. pfilter parser0 = [] \<and> por parser0 = [o'] \<longrightarrow> cs = [convertFilterToSearch o']"
    by (simp add: cs_def)
  have 5: "pfilter parser0 = [] \<and> 1 < length (por parser0) \<longrightarrow>
           cs = [JObj [(''$or'', JArr (map convertFilterToSearch (por parser0)))]]"
    by (auto simp: cs_def)
  have 6: "pfilter parser0 = [] \<and> por parser0 = [] \<longrightarrow> cs = []"
    by (simp add: cs_def)
  from 0 1 2 3 4 5 6 show ?thesis by (intro exI [of _ cs] conjI)
qed


theorem client_search_tie_break_witness:
  "getSearch tableEnv (create\<lparr>pfilter := [statusFilter ''active''], por := [statusFilter ''pending'']\<rparr>)
       plainCrudOptions ReadAll JUndefined
     = Inr ([JObj [],
             JObj [(''$or'', JArr [JObj [(''status'', JObj [(''$eq'', JStr ''active'')])],
                                  JObj [(''status'', JObj [(''$eq'', JStr ''pending'')])]])]],
            create\<lparr>pfilter := [statusFilter ''active''], por := [statusFilter ''pending'']\<rparr>)"
proof -
  let ?p = "create\<lparr>pfilter := [statusFilter ''active''], por := [statusFilter ''pending'']\<rparr>"
  have g: "getParamsSearch tableEnv ?p plainCrudOptions JUndefined = Inr ([], ?p)"
    by (simp add: getParamsSearch_def)
  have nf: "\<forall>f. qfilter (co_query plainCrudOptions) \<noteq> FilterFunction f"
    by (simp add: plainCrudOptions_def noOptions_def)
  have ns: "\<not> truthy (psearch ?p)"
    by (simp add: create_def)
  from client_search_tie_break [OF g nf ns, of ReadAll]
  obtain cs where 0: "getSearch tableEnv ?p plainCrudOptions ReadAll JUndefined
       = Inr ([] @ optionsFilter (qfilter (co_query plainCrudOptions)) @ cs, ?p)"
    and 1: "\<forall>f o'. pfilter ?p = [f] \<and> por ?p = [o'] \<longrightarrow>
           cs = [JObj [(''$or'', JArr [convertFilterToSearch f, convertFilterToSearch o'])]]"
    by blast
  from 1 have "cs = [JObj [(''$or'', JArr [convertFilterToSearch (statusFilter ''active''),
                                          convertFilterToSearch (statusFilter ''pending'')])]]"
    by simp
  with 0 show ?thesis
    by (simp add: plainCrudOptions_def noOptions_def convertFilterToSearch_def statusFilter_def)
qed




text \<open>
  C4 as stated fails when the route's filter is a function: no search parameter was
  supplied, the client sent one filter and one or, and the search list is the function's
  condition alone, with no \<open>$or\<close> of the two.
\<close>

theorem function_filter_drops_client_filters_counterexample:
  "\<not> truthy (psearch (create\<lparr>pfilter := [statusFilter ''active''], por := [statusFilter ''pending'']\<rparr>))
   \<and> getSearch tableEnv (create\<lparr>pfilter := [statusFilter ''active''], por := [statusFilter ''pending'']\<rparr>)
        (plainCrudOptions\<lparr>co_query := noOptions\<lparr>qfilter := tenantFilter\<rparr>\<rparr>) ReadAll JUndefined
      = Inr ([JObj [(''tenant'', JNum 1)]],
             create\<lparr>pfilter := [statusFilter ''active''], por := [statusFilter ''pending'']\<rparr>)
   \<and> JObj [(''$or'', JArr [convertFilterToSearch (statusFilter ''active''),
                            convertFilterToSearch (statusFilter ''pending'')])]
        \<notin> set [JObj [(''tenant'', JNum 1)]]"
  by (simp add: getSearch_def getParamsSearch_def andThen_def plainCrudOptions_def noOptions_def
        tenantFilter_def create_def)


lemma getSearch_eq:
  assumes "getParamsSearch env parser0 crudOptions params' = Inr (paramsSearch, parser)"
  shows "getSearch env parser0 crudOptions action' params'
           = Inr (paramsSearch @ routeAndClientSearch crudOptions action' parser0, parser)"
  using assms getParamsSearch_keeps [OF assms]
  by (cases "qfilter (co_query crudOptions)")
     (simp_all add: getSearch_def andThen_def hasLength_def Let_def routeAndClientSearch_def clientSearch_def)

lemma getParamsSearch_filters:
  "getParamsSearch env parser0 crudOptions params' = Inr (paramsSearch, parser) \<Longrightarrow>
   paramsSearch = (if truthy params' then map convertFilterToSearch (paramsFilter parser) else [])"
  by (auto simp: getParamsSearch_def andThen_def split: if_splits sum.splits)

lemma getAuth_None:
  "co_auth crudOptions = None \<Longrightarrow>
   getAuth parser crudOptions req
     = (\<lparr>a_filter = JUndefined, a_or = JUndefined, a_auth = JUndefined\<rparr>, parser, [])"
  by (simp add: getAuth_def)

lemma getAuth_Some:
  assumes s: "co_auth crudOptions = Some ao"
    and u: "u = (if full (property ao) then obj_get req (elems (property ao)) else req)"
    and o: "authOr = (case auth_or ao of Some orHook \<Rightarrow> orHook u | None \<Rightarrow> JUndefined)"
  shows "a_or (fst (getAuth parser crudOptions req)) = authOr"
    and "a_filter (fst (getAuth parser crudOptions req)) =
           (case auth_filter ao of
              Some filterHook \<Rightarrow>
                (if \<not> truthy authOr then (if truthy (filterHook u) then filterHook u else JObj [])
                 else JUndefined)
            | None \<Rightarrow> JUndefined)"
    and "snd (snd (getAuth parser crudOptions req)) =
           (case auth_or ao of Some f \<Rightarrow> [''or''] | None \<Rightarrow> [])
           @ (case auth_filter ao of
                Some f \<Rightarrow> (if \<not> truthy authOr then [''filter''] else [])
              | None \<Rightarrow> [])
           @ (case auth_persist ao of Some f \<Rightarrow> [''persist''] | None \<Rightarrow> [])
           @ (case auth_classTransformOptions ao of Some f \<Rightarrow> [''classTransformOptions''] | None \<Rightarrow> [])
           @ (case auth_groups ao of Some f \<Rightarrow> [''groups''] | None \<Rightarrow> [])"
proof -
  have u': "userOrRequest ao req = u"
    by (simp add: userOrRequest_def u)
  show "a_or (fst (getAuth parser crudOptions req)) = authOr"
    by (simp add: getAuth_def Let_def s u' o)
  show "a_filter (fst (getAuth parser crudOptions req)) =
           (case auth_filter ao of
              Some filterHook \<Rightarrow>
                (if \<not> truthy authOr then (if truthy (filterHook u) then filterHook u else JObj [])
                 else JUndefined)
            | None \<Rightarrow> JUndefined)"
    unfolding o by (simp add: getAuth_def Let_def s u')
  show "snd (snd (getAuth parser crudOptions req)) =
           (case auth_or ao of Some f \<Rightarrow> [''or''] | None \<Rightarrow> [])
           @ (case auth_filter ao of
                Some f \<Rightarrow> (if \<not> truthy authOr then [''filter''] else [])
              | None \<Rightarrow> [])
           @ (case auth_persist ao of Some f \<Rightarrow> [''persist''] | None \<Rightarrow> [])
           @ (case auth_classTransformOptions ao of Some f \<Rightarrow> [''classTransformOptions''] | None \<Rightarrow> [])
           @ (case auth_groups ao of Some f \<Rightarrow> [''groups''] | None \<Rightarrow> [])"
    unfolding o by (simp add: getAuth_def Let_def s u')
qed

lemma intercept_eq:
  assumes pq: "parseQuery env create (obj_get req ''query'') (co_operators (ci_crudOptions info)) = Inr parser"
    and gp: "getParamsSearch env parser (ci_crudOptions info) (obj_get req ''params'') = Inr (paramsSearch, parser1)"
    and c: "ci_ctrlOptions info"
    and r: "rest = paramsSearch @ routeAndClientSearch (ci_crudOptions info) (ci_action info) parser"
  shows "finalSearch (intercept env info req None)
           = Inr (if truthy (a_or (fst (getAuth parser1 (ci_crudOptions info) req)))
                  then JObj [(''$or'', JArr [a_or (fst (getAuth parser1 (ci_crudOptions info) req)),
                                            JObj [(''$and'', JArr rest)]])]
                  else JObj [(''$and'', JArr (a_filter (fst (getAuth parser1 (ci_crudOptions info) req)) # rest))])"
    and "hooksInvoked (intercept env info req None) = snd (snd (getAuth parser1 (ci_crudOptions info) req))"
proof -
  obtain auth' parser2 calls where ga: "getAuth parser1 (ci_crudOptions info) req = (auth', parser2, calls)"
    by (cases "getAuth parser1 (ci_crudOptions info) req") auto
  have i: "intercept env info req None
     = Inr (getCrudRequest
              (parser2\<lparr>psearch :=
                 (if truthy (a_or auth')
                  then JObj [(''$or'', JArr [a_or auth', JObj [(''$and'', JArr rest)]])]
                  else JObj [(''$and'', JArr (a_filter auth' # rest))])\<rparr>)
              (ci_crudOptions info) (a_auth auth'),
            calls)"
    using pq getSearch_eq [OF gp, of "ci_action info"] ga c r
    by (simp add: intercept_def andThen_def)
  show "finalSearch (intercept env info req None)
           = Inr (if truthy (a_or (fst (getAuth parser1 (ci_crudOptions info) req)))
                  then JObj [(''$or'', JArr [a_or (fst (getAuth parser1 (ci_crudOptions info) req)),
                                            JObj [(''$and'', JArr rest)]])]
                  else JObj [(''$and'', JArr (a_filter (fst (getAuth parser1 (ci_crudOptions info) req)) # rest))])"
    by (simp add: i ga finalSearch_def getCrudRequest_def)
  show "hooksInvoked (intercept env info req None) = snd (snd (getAuth parser1 (ci_crudOptions info) req))"
    by (simp add: i ga hooksInvoked_def)
qed

lemma user_pq:
  "parseQuery tableEnv create (obj_get userRequest ''query'') (co_operators (ci_crudOptions (userInfo ao)))
     = Inr (create\<lparr>psearch := JObj [(''name'', JNum 1)]\<rparr>)"
proof -
  let ?q = "JObj [(''s'', JStr nameSearchText)]"
  have q: "obj_get userRequest ''query'' = ?q"
    by (simp add: userRequest_def obj_get_def)
  have n: "normalizeIndexedParams ?q = ?q"
    by (simp add: normalizeIndexedParams_def indexedKey_def own_set_def arrayIndex_def is_digit_def)
  have k: "objKeys ?q = [''s'']"
    by (simp add: objKeys_def)
  have g: "getParamNames tableEnv [''s''] ''search'' = [''s'']"
    by (simp add: getParamNames_def tableEnv_def)
  have d: "obj_get ?q ''s'' = JStr nameSearchText"
    by (simp add: obj_get_def)
  have sp: "parseSearchQueryParam tableEnv (JStr nameSearchText) = Inr (JObj [(''name'', JNum 1)])"
    by (simp add: parseSearchQueryParam_def isNil_def tableEnv_def nameSearchText_def)
  have pq: "\<And>t parser. t \<noteq> ''s'' \<Longrightarrow> t \<noteq> ''search'' \<Longrightarrow>
        parseQueryParam tableEnv ?q [''s''] t parser = Inr []"
    by (simp add: parseQueryParam_def getParamNames_def tableEnv_def)
  have ex: "parseExtraFromQueryParam tableEnv ?q = JUndefined"
    by (simp add: tableEnv_def)
  show ?thesis
    unfolding q
    apply (simp only: parseQuery_def n k g Let_def)
    apply (simp add: d sp andThen_def hasLength_def isNil_def)
    apply (simp add: pq ex andThen_def)
    apply (simp add: create_def)
    done
qed

lemma user_gp:
  "getParamsSearch tableEnv (create\<lparr>psearch := JObj [(''name'', JNum 1)]\<rparr>) (ci_crudOptions (userInfo ao))
       (obj_get userRequest ''params'')
     = Inr ([JObj [(''id'', JObj [(''$eq'', JStr ''5'')])]],
            create\<lparr>psearch := JObj [(''name'', JNum 1)],
                   paramsFilter := [\<lparr>field = ''id'', operator = ''$eq'', qvalue = JStr ''5''\<rparr>]\<rparr>)"
  by (simp add: getParamsSearch_def parseParams_def paramParser_def andThen_def userRequest_def obj_get_def
        objKeys_def hasLength_def userInfo_def plainCrudOptions_def tableEnv_def convertFilterToSearch_def
        List.map_filter_def create_def)

lemma user_rest:
  "routeAndClientSearch (ci_crudOptions (userInfo ao)) (ci_action (userInfo ao))
       (create\<lparr>psearch := JObj [(''name'', JNum 1)]\<rparr>)
     = [JObj [], JObj [(''name'', JNum 1)]]"
  by (simp add: routeAndClientSearch_def clientSearch_def userInfo_def plainCrudOptions_def noOptions_def)

lemma user_info:
  "ci_ctrlOptions (userInfo ao)" "co_auth (ci_crudOptions (userInfo ao)) = ao"
  by (simp_all add: userInfo_def)

text \<open>
  C1, as the code has it. When the request parses and controller options are present, the
  search attached to the request is assembled from \<open>rest\<close>, the params search followed by
  the route's filter and the client's search (or, when the route's filter is a function,
  by the one condition that function returns), and from the hooks of the auth rule, which
  are applied to \<open>req[property]\<close>, or to the request when no property is configured.
  If the \<open>or\<close> hook returns a truthy condition, the search is
  \<open>{$or: [authOr, {$and: rest}]}\<close>, with no entry for an auth filter, and the filter hook
  is not invoked. Otherwise the search is \<open>{$and: [authFilter, ...rest]}\<close>, where
  \<open>authFilter\<close> is what the filter hook returns, \<open>{}\<close> if that is falsy, and
  \<open>undefined\<close> when there is no filter hook or no auth rule at all. The params search is
  the list of the converted filters of the path parameters.
\<close>

theorem final_search_assembly:
  assumes pq: "parseQuery env create (obj_get req ''query'') (co_operators (ci_crudOptions info)) = Inr parser"
    and gp: "getParamsSearch env parser (ci_crudOptions info) (obj_get req ''params'') = Inr (paramsSearch, parser1)"
    and c: "ci_ctrlOptions info"
    and r: "rest = paramsSearch @ routeAndClientSearch (ci_crudOptions info) (ci_action info) parser"
    and i: "result = intercept env info req None"
  shows "(co_auth (ci_crudOptions info) = None \<longrightarrow>
            finalSearch result = Inr (JObj [(''$and'', JArr (JUndefined # rest))])
            \<and> hooksInvoked result = [])
       \<and> (\<forall>ao u authOr.
            co_auth (ci_crudOptions info) = Some ao
            \<and> u = (if full (property ao) then obj_get req (elems (property ao)) else req)
            \<and> authOr = (case auth_or ao of Some orHook \<Rightarrow> orHook u | None \<Rightarrow> JUndefined) \<longrightarrow>
              (truthy authOr \<longrightarrow>
                 finalSearch result = Inr (JObj [(''$or'', JArr [authOr, JObj [(''$and'', JArr rest)]])])
                 \<and> ''filter'' \<notin> set (hooksInvoked result))
              \<and> (\<not> truthy authOr \<longrightarrow>
                   (\<forall>filterHook. auth_filter ao = Some filterHook \<longrightarrow>
                      finalSearch result
                        = Inr (JObj [(''$and'',
                                 JArr ((if truthy (filterHook u) then filterHook u else JObj []) # rest))])
                      \<and> ''filter'' \<in> set (hooksInvoked result))
                   \<and> (auth_filter ao = None \<longrightarrow>
                        finalSearch result = Inr (JObj [(''$and'', JArr (JUndefined # rest))])
                        \<and> ''filter'' \<notin> set (hooksInvoked result))))
       \<and> paramsSearch
           = (if truthy (obj_get req ''params'') then map convertFilterToSearch (paramsFilter parser1) else [])"
proof (intro conjI allI impI)
  assume n: "co_auth (ci_crudOptions info) = None"
  show "finalSearch result = Inr (JObj [(''$and'', JArr (JUndefined # rest))])"
    unfolding i intercept_eq(1) [OF pq gp c r] by (simp add: getAuth_None [OF n])
  show "hooksInvoked result = []"
    unfolding i intercept_eq(2) [OF pq gp c r] by (simp add: getAuth_None [OF n])
next
  fix ao u authOr
  assume a: "co_auth (ci_crudOptions info) = Some ao
            \<and> u = (if full (property ao) then obj_get req (elems (property ao)) else req)
            \<and> authOr = (case auth_or ao of Some orHook \<Rightarrow> orHook u | None \<Rightarrow> JUndefined)"
  note g = getAuth_Some [where parser = parser1 and req = req, OF a [THEN conjunct1]
      a [THEN conjunct2, THEN conjunct1] a [THEN conjunct2, THEN conjunct2]]
  {
    assume t: "truthy authOr"
    show "finalSearch result = Inr (JObj [(''$or'', JArr [authOr, JObj [(''$and'', JArr rest)]])])"
      unfolding i intercept_eq(1) [OF pq gp c r] g(1) using t by simp
    show "''filter'' \<notin> set (hooksInvoked result)"
      unfolding i intercept_eq(2) [OF pq gp c r] g(3) using t by (simp split: option.splits)
  }
  {
    fix filterHook
    assume t: "\<not> truthy authOr" and f: "auth_filter ao = Some filterHook"
    show "finalSearch result
            = Inr (JObj [(''$and'', JArr ((if truthy (filterHook u) then filterHook u else JObj []) # rest))])"
      unfolding i intercept_eq(1) [OF pq gp c r] g(1) g(2) using t f by simp
    show "''filter'' \<in> set (hooksInvoked result)"
      unfolding i intercept_eq(2) [OF pq gp c r] g(3) using t f by simp
  }
  {
    assume t: "\<not> truthy authOr" and f: "auth_filter ao = None"
    show "finalSearch result = Inr (JObj [(''$and'', JArr (JUndefined # rest))])"
      unfolding i intercept_eq(1) [OF pq gp c r] g(1) g(2) using t f by simp
    show "''filter'' \<notin> set (hooksInvoked result)"
      unfolding i intercept_eq(2) [OF pq gp c r] g(3) using t f by (simp split: option.splits)
  }
next
  show "paramsSearch
           = (if truthy (obj_get req ''params'') then map convertFilterToSearch (paramsFilter parser1) else [])"
    using gp by (rule getParamsSearch_filters)
qed

theorem final_search_assembly_witness:
  "finalSearch (intercept tableEnv (userInfo (Some userAuth)) userRequest None)
     = Inr (JObj [(''$and'', JArr [JObj [(''ownerId'', JNum 7)], JObj [(''id'', JObj [(''$eq'', JStr ''5'')])],
                                  JObj [], JObj [(''name'', JNum 1)]])])
   \<and> ''filter'' \<in> set (hooksInvoked (intercept tableEnv (userInfo (Some userAuth)) userRequest None))
   \<and> finalSearch (intercept tableEnv (userInfo (Some userOrAuth)) userRequest None)
     = Inr (JObj [(''$or'', JArr [JObj [(''id'', JNum 7)],
                                 JObj [(''$and'', JArr [JObj [(''id'', JObj [(''$eq'', JStr ''5'')])],
                                                       JObj [], JObj [(''name'', JNum 1)]])]])])
   \<and> ''filter'' \<notin> set (hooksInvoked (intercept tableEnv (userInfo (Some userOrAuth)) userRequest None))
   \<and> finalSearch (intercept tableEnv (userInfo (Some (userAuth\<lparr>auth_filter := None\<rparr>))) userRequest None)
     = Inr (JObj [(''$and'', JArr [JUndefined, JObj [(''id'', JObj [(''$eq'', JStr ''5'')])],
                                  JObj [], JObj [(''name'', JNum 1)]])])
   \<and> finalSearch (intercept tableEnv (userInfo None) userRequest None)
     = Inr (JObj [(''$and'', JArr [JUndefined, JObj [(''id'', JObj [(''$eq'', JStr ''5'')])],
                                  JObj [], JObj [(''name'', JNum 1)]])])
   \<and> hooksInvoked (intercept tableEnv (userInfo None) userRequest None) = []"
proof -
  note t = final_search_assembly [OF user_pq user_gp user_info(1) refl refl]
  have u: "obj_get userRequest ''user'' = JObj [(''id'', JNum 7)]"
    "obj_get (JObj [(''id'', JNum 7)]) ''id'' = JNum 7"
    by (simp_all add: userRequest_def obj_get_def)
  from t [of "Some userAuth"]
  have 1: "finalSearch (intercept tableEnv (userInfo (Some userAuth)) userRequest None)
     = Inr (JObj [(''$and'', JArr [JObj [(''ownerId'', JNum 7)], JObj [(''id'', JObj [(''$eq'', JStr ''5'')])],
                                  JObj [], JObj [(''name'', JNum 1)]])])
   \<and> ''filter'' \<in> set (hooksInvoked (intercept tableEnv (userInfo (Some userAuth)) userRequest None))"
    by (simp add: user_info user_rest u userAuth_def)
  from t [of "Some userOrAuth"]
  have 2: "finalSearch (intercept tableEnv (userInfo (Some userOrAuth)) userRequest None)
     = Inr (JObj [(''$or'', JArr [JObj [(''id'', JNum 7)],
                                 JObj [(''$and'', JArr [JObj [(''id'', JObj [(''$eq'', JStr ''5'')])],
                                                       JObj [], JObj [(''name'', JNum 1)]])]])])
   \<and> ''filter'' \<notin> set (hooksInvoked (intercept tableEnv (userInfo (Some userOrAuth)) userRequest None))"
    by (simp add: user_info user_rest u userOrAuth_def userAuth_def)
  from t [of "Some (userAuth\<lparr>auth_filter := None\<rparr>)"]
  have 3: "finalSearch (intercept tableEnv (userInfo (Some (userAuth\<lparr>auth_filter := None\<rparr>))) userRequest None)
     = Inr (JObj [(''$and'', JArr [JUndefined, JObj [(''id'', JObj [(''$eq'', JStr ''5'')])],
                                  JObj [], JObj [(''name'', JNum 1)]])])"
    by (simp add: user_info user_rest u userAuth_def)
  from t [of None]
  have 4: "finalSearch (intercept tableEnv (userInfo None) userRequest None)
     = Inr (JObj [(''$and'', JArr [JUndefined, JObj [(''id'', JObj [(''$eq'', JStr ''5'')])],
                                  JObj [], JObj [(''name'', JNum 1)]])])
   \<and> hooksInvoked (intercept tableEnv (userInfo None) userRequest None) = []"
    by (simp add: user_info user_rest)
  from 1 2 3 4 show ?thesis by simp
qed

text \<open>
  C1 as stated fails under an auth \<open>or\<close>: the inner \<open>$and\<close> holds the rest only, with
  no entry for the auth filter, neither \<open>undefined\<close> nor what the filter hook would
  return.
\<close>

theorem auth_filter_absent_under_auth_or_counterexample:
  "finalSearch (intercept tableEnv ownerInfo (JObj []) None)
     = Inr (JObj [(''$or'', JArr [JObj [(''id'', JNum 1)], JObj [(''$and'', JArr [JObj []])]])])
   \<and> finalSearch (intercept tableEnv ownerInfo (JObj []) None)
     \<noteq> Inr (JObj [(''$or'', JArr [JObj [(''id'', JNum 1)], JObj [(''$and'', JArr [JUndefined, JObj []])]])])
   \<and> finalSearch (intercept tableEnv ownerInfo (JObj []) None)
     \<noteq> Inr (JObj [(''$or'', JArr [JObj [(''id'', JNum 1)],
                                   JObj [(''$and'', JArr [JObj [(''owner'', JNum 2)], JObj []])]])])"
  by (simp add: intercept_def parseQuery_def obj_get_def andThen_def getSearch_def getParamsSearch_def
        getAuth_def ownerInfo_def plainCrudOptions_def ownerAuth_def noOptions_def create_def Let_def
        finalSearch_def getCrudRequest_def hasLength_def userOrRequest_def)

lemma getParamNames_update [simp]:
  "getParamNames (env\<lparr>conditionParser := cp\<rparr>) paramNames t = getParamNames env paramNames t"
  by (simp add: getParamNames_def)

lemma parseQueryParam_update [simp]:
  "parseQueryParam (env\<lparr>conditionParser := cp\<rparr>) q paramNames t parser = parseQueryParam env q paramNames t parser"
  by (simp add: parseQueryParam_def)

lemma parseSearchQueryParam_update [simp]:
  "parseSearchQueryParam (env\<lparr>conditionParser := cp\<rparr>) d = parseSearchQueryParam env d"
  by (simp add: parseSearchQueryParam_def)














end
